theory Spec2Isabelle
  imports
    Main
    "HOL-Library.Word"
    "HOL-Library.Char_ord"
    "HOL-Library.List_Lexorder"
begin

unbundle bit_operations_syntax

section \<open>The message registry (osc/messages.hpp, osc/messages.cpp)\<close>

text \<open>
  The scoped enumeration \<^verbatim>\<open>enum class tag\<close> of messages.hpp, one constructor per
  enumerator and in the order of the declaration; \<^verbatim>\<open>tag::x\<close> is written \<open>tag_x\<close>.
  The last enumerator, \<^verbatim>\<open>illegal\<close>, is the error code of the lookups.
\<close>

datatype (plugins only: code size) tag =
    tag_announce
  | tag_cliclean
  | tag_clidirty
  | tag_clihide
  | tag_clilabel
  | tag_cliloaded
  | tag_climessage
  | tag_cliopen
  | tag_cliprogress
  | tag_clisave
  | tag_clishow
  | tag_ctlannounce
  | tag_error
  | tag_generic
  | tag_guiannounce
  | tag_gui_announce
  | tag_guidirty
  | tag_guihidden
  | tag_guihide
  | tag_guilabel
  | tag_guimessage
  | tag_guinew
  | tag_guioption
  | tag_guiprogress
  | tag_guiremove
  | tag_guiresume
  | tag_guisave
  | tag_guisession
  | tag_guisessionname
  | tag_guishow
  | tag_guishown
  | tag_guisrvannounce
  | tag_guistatus
  | tag_guistop
  | tag_guiswitch
  | tag_guivisible
  | tag_nonaddstrip
  | tag_nonhello
  | tag_null
  | tag_oscping
  | tag_oscreply
  | tag_proxyargs
  | tag_proxycfgfile
  | tag_proxyerror
  | tag_proxyexe
  | tag_proxykill
  | tag_proxylabel
  | tag_proxysave
  | tag_proxystart
  | tag_proxystop
  | tag_proxyupdate
  | tag_reply
  | tag_replyex
  | tag_sessionlist
  | tag_sessionname
  | tag_sessionroot
  | tag_sigconnect
  | tag_sigcreated
  | tag_sigdisconnect
  | tag_sighello
  | tag_siglist
  | tag_sigremoved
  | tag_sigrenamed
  | tag_sigreply
  | tag_srvabort
  | tag_srvadd
  | tag_srvannounce
  | tag_srvbroadcast
  | tag_srvclose
  | tag_srvduplicate
  | tag_srvlist
  | tag_srvmessage
  | tag_srvnew
  | tag_srvopen
  | tag_srvquit
  | tag_srvreply
  | tag_srvsave
  | tag_stripbynumber
  | tag_illegal

text \<open>The value of each enumerator: its position in the declaration. A
  \<^verbatim>\<open>std::map<tag, messagepair>\<close> is ordered by it.\<close>

primrec tag_value :: "tag \<Rightarrow> nat" where
  "tag_value tag_announce = 0"
| "tag_value tag_cliclean = 1"
| "tag_value tag_clidirty = 2"
| "tag_value tag_clihide = 3"
| "tag_value tag_clilabel = 4"
| "tag_value tag_cliloaded = 5"
| "tag_value tag_climessage = 6"
| "tag_value tag_cliopen = 7"
| "tag_value tag_cliprogress = 8"
| "tag_value tag_clisave = 9"
| "tag_value tag_clishow = 10"
| "tag_value tag_ctlannounce = 11"
| "tag_value tag_error = 12"
| "tag_value tag_generic = 13"
| "tag_value tag_guiannounce = 14"
| "tag_value tag_gui_announce = 15"
| "tag_value tag_guidirty = 16"
| "tag_value tag_guihidden = 17"
| "tag_value tag_guihide = 18"
| "tag_value tag_guilabel = 19"
| "tag_value tag_guimessage = 20"
| "tag_value tag_guinew = 21"
| "tag_value tag_guioption = 22"
| "tag_value tag_guiprogress = 23"
| "tag_value tag_guiremove = 24"
| "tag_value tag_guiresume = 25"
| "tag_value tag_guisave = 26"
| "tag_value tag_guisession = 27"
| "tag_value tag_guisessionname = 28"
| "tag_value tag_guishow = 29"
| "tag_value tag_guishown = 30"
| "tag_value tag_guisrvannounce = 31"
| "tag_value tag_guistatus = 32"
| "tag_value tag_guistop = 33"
| "tag_value tag_guiswitch = 34"
| "tag_value tag_guivisible = 35"
| "tag_value tag_nonaddstrip = 36"
| "tag_value tag_nonhello = 37"
| "tag_value tag_null = 38"
| "tag_value tag_oscping = 39"
| "tag_value tag_oscreply = 40"
| "tag_value tag_proxyargs = 41"
| "tag_value tag_proxycfgfile = 42"
| "tag_value tag_proxyerror = 43"
| "tag_value tag_proxyexe = 44"
| "tag_value tag_proxykill = 45"
| "tag_value tag_proxylabel = 46"
| "tag_value tag_proxysave = 47"
| "tag_value tag_proxystart = 48"
| "tag_value tag_proxystop = 49"
| "tag_value tag_proxyupdate = 50"
| "tag_value tag_reply = 51"
| "tag_value tag_replyex = 52"
| "tag_value tag_sessionlist = 53"
| "tag_value tag_sessionname = 54"
| "tag_value tag_sessionroot = 55"
| "tag_value tag_sigconnect = 56"
| "tag_value tag_sigcreated = 57"
| "tag_value tag_sigdisconnect = 58"
| "tag_value tag_sighello = 59"
| "tag_value tag_siglist = 60"
| "tag_value tag_sigremoved = 61"
| "tag_value tag_sigrenamed = 62"
| "tag_value tag_sigreply = 63"
| "tag_value tag_srvabort = 64"
| "tag_value tag_srvadd = 65"
| "tag_value tag_srvannounce = 66"
| "tag_value tag_srvbroadcast = 67"
| "tag_value tag_srvclose = 68"
| "tag_value tag_srvduplicate = 69"
| "tag_value tag_srvlist = 70"
| "tag_value tag_srvmessage = 71"
| "tag_value tag_srvnew = 72"
| "tag_value tag_srvopen = 73"
| "tag_value tag_srvquit = 74"
| "tag_value tag_srvreply = 75"
| "tag_value tag_srvsave = 76"
| "tag_value tag_stripbynumber = 77"
| "tag_value tag_illegal = 78"

record messagepair =
  msg_text :: string
  msg_pattern :: string

type_synonym lookup = "(tag \<times> messagepair) list"

text \<open>\<^verbatim>\<open>const std::string NIL { "-" }\<close>: the string that stands for a null pointer, and
  \<^verbatim>\<open>osc_message_ptr()\<close> (the macro \<^verbatim>\<open>OPTR\<close>), which turns it into one.\<close>

definition NIL :: string where
  "NIL = ''-''"

definition osc_message_ptr :: "string \<Rightarrow> string option" where
  "osc_message_ptr s = (if s = NIL then None else Some s)"

text \<open>
  \<^verbatim>\<open>all_messages()\<close>: the table, a \<^verbatim>\<open>std::map\<close> from tags to message pairs, written as
  the list of its entries in the order of iteration. The initializer list of the source
  is already in the order of the enumeration and names no tag twice (lemmas
  \<open>all_messages_sorted\<close> and \<open>all_messages_distinct\<close>), so the map holds exactly these
  entries in exactly this order.
\<close>

definition all_messages :: lookup where
  "all_messages = [
    (tag_announce, \<lparr>msg_text = ''/nsm/gui/gui_announce'', msg_pattern = ''''\<rparr>),
    (tag_cliclean, \<lparr>msg_text = ''/nsm/client/is_clean'', msg_pattern = ''''\<rparr>),
    (tag_clidirty, \<lparr>msg_text = ''/nsm/client/is_dirty'', msg_pattern = ''''\<rparr>),
    (tag_clihide, \<lparr>msg_text = ''/nsm/client/hide_optional_gui'', msg_pattern = ''''\<rparr>),
    (tag_clilabel, \<lparr>msg_text = ''/nsm/client/label'', msg_pattern = ''s''\<rparr>),
    (tag_cliloaded, \<lparr>msg_text = ''/nsm/client/session_is_loaded'', msg_pattern = ''''\<rparr>),
    (tag_climessage, \<lparr>msg_text = ''/nsm/client/message'', msg_pattern = ''is''\<rparr>),
    (tag_cliopen, \<lparr>msg_text = ''/nsm/client/open'', msg_pattern = ''sss''\<rparr>),
    (tag_cliprogress, \<lparr>msg_text = ''/nsm/client/progress'', msg_pattern = ''f''\<rparr>),
    (tag_clisave, \<lparr>msg_text = ''/nsm/client/save'', msg_pattern = ''''\<rparr>),
    (tag_clishow, \<lparr>msg_text = ''/nsm/client/show_optional_gui'', msg_pattern = ''''\<rparr>),
    (tag_ctlannounce, \<lparr>msg_text = ''/nsm/gui/server/announce'', msg_pattern = ''s''\<rparr>),
    (tag_error, \<lparr>msg_text = ''/error'', msg_pattern = ''sis''\<rparr>),
    (tag_generic, \<lparr>msg_text = NIL, msg_pattern = NIL\<rparr>),
    (tag_guiannounce, \<lparr>msg_text = ''/nsm/gui/gui_announce'', msg_pattern = ''''\<rparr>),
    (tag_gui_announce, \<lparr>msg_text = ''/nsm/gui/gui_announce'', msg_pattern = ''s''\<rparr>),
    (tag_guidirty, \<lparr>msg_text = ''/nsm/gui/client/dirty'', msg_pattern = ''si''\<rparr>),
    (tag_guihidden, \<lparr>msg_text = ''/nsm/client/gui_is_hidden'', msg_pattern = ''''\<rparr>),
    (tag_guihide, \<lparr>msg_text = ''/nsm/gui/client/hide_optional_gui'', msg_pattern = ''s''\<rparr>),
    (tag_guilabel, \<lparr>msg_text = ''/nsm/gui/client/label'', msg_pattern = ''ss''\<rparr>),
    (tag_guimessage, \<lparr>msg_text = ''/nsm/gui/client/message'', msg_pattern = ''s''\<rparr>),
    (tag_guinew, \<lparr>msg_text = ''/nsm/gui/client/new'', msg_pattern = ''ss''\<rparr>),
    (tag_guioption, \<lparr>msg_text = ''/nsm/gui/client/has_optional_gui'', msg_pattern = ''s''\<rparr>),
    (tag_guiprogress, \<lparr>msg_text = ''/nsm/gui/client/progress'', msg_pattern = ''sf''\<rparr>),
    (tag_guiremove, \<lparr>msg_text = ''/nsm/gui/client/remove'', msg_pattern = ''s''\<rparr>),
    (tag_guiresume, \<lparr>msg_text = ''/nsm/gui/client/resume'', msg_pattern = ''s''\<rparr>),
    (tag_guisave, \<lparr>msg_text = ''/nsm/gui/client/save'', msg_pattern = ''s''\<rparr>),
    (tag_guisession, \<lparr>msg_text = ''/nsm/gui/session/session'', msg_pattern = ''s''\<rparr>),
    (tag_guisessionname, \<lparr>msg_text = ''/nsm/gui/session/name'', msg_pattern = ''ss''\<rparr>),
    (tag_guishow, \<lparr>msg_text = ''/nsm/gui/client/show_optional_gui'', msg_pattern = ''s''\<rparr>),
    (tag_guishown, \<lparr>msg_text = ''/nsm/client/gui_is_shown'', msg_pattern = ''''\<rparr>),
    (tag_guisrvannounce, \<lparr>msg_text = ''/nsm/gui/server_announce'', msg_pattern = ''s''\<rparr>),
    (tag_guistatus, \<lparr>msg_text = ''/nsm/gui/client/status'', msg_pattern = ''ss''\<rparr>),
    (tag_guistop, \<lparr>msg_text = ''/nsm/gui/client/stop'', msg_pattern = ''s''\<rparr>),
    (tag_guiswitch, \<lparr>msg_text = ''/nsm/gui/client/switch'', msg_pattern = ''ss''\<rparr>),
    (tag_guivisible, \<lparr>msg_text = ''/nsm/gui/client/gui_visible'', msg_pattern = ''si''\<rparr>),
    (tag_nonaddstrip, \<lparr>msg_text = ''/non/mixer/add_strip'', msg_pattern = ''''\<rparr>),
    (tag_nonhello, \<lparr>msg_text = ''/non/hello'', msg_pattern = ''ssss''\<rparr>),
    (tag_null, \<lparr>msg_text = NIL, msg_pattern = NIL\<rparr>),
    (tag_oscping, \<lparr>msg_text = ''/osc/ping'', msg_pattern = ''''\<rparr>),
    (tag_oscreply, \<lparr>msg_text = '''', msg_pattern = ''''\<rparr>),
    (tag_proxyargs, \<lparr>msg_text = ''/nsm/proxy/arguments'', msg_pattern = ''s''\<rparr>),
    (tag_proxycfgfile, \<lparr>msg_text = ''/nsm/proxy/config_file'', msg_pattern = ''s''\<rparr>),
    (tag_proxyerror, \<lparr>msg_text = ''/nsm/proxy/client_error'', msg_pattern = ''s''\<rparr>),
    (tag_proxyexe, \<lparr>msg_text = ''/nsm/proxy/executable'', msg_pattern = ''s''\<rparr>),
    (tag_proxykill, \<lparr>msg_text = ''/nsm/proxy/kill'', msg_pattern = ''''\<rparr>),
    (tag_proxylabel, \<lparr>msg_text = ''/nsm/proxy/label'', msg_pattern = ''s''\<rparr>),
    (tag_proxysave, \<lparr>msg_text = ''/nsm/proxy/save_signal'', msg_pattern = ''i''\<rparr>),
    (tag_proxystart, \<lparr>msg_text = ''/nsm/proxy/start'', msg_pattern = ''sss''\<rparr>),
    (tag_proxystop, \<lparr>msg_text = ''/nsm/proxy/stop_signal'', msg_pattern = ''i''\<rparr>),
    (tag_proxyupdate, \<lparr>msg_text = ''/nsm/proxy/update'', msg_pattern = ''''\<rparr>),
    (tag_reply, \<lparr>msg_text = ''/reply'', msg_pattern = ''ss''\<rparr>),
    (tag_replyex, \<lparr>msg_text = ''/reply'', msg_pattern = ''ssss''\<rparr>),
    (tag_sessionlist, \<lparr>msg_text = ''/nsm/session/list'', msg_pattern = ''?''\<rparr>),
    (tag_sessionname, \<lparr>msg_text = ''/nsm/session/name'', msg_pattern = ''ss''\<rparr>),
    (tag_sessionroot, \<lparr>msg_text = ''/nsm/gui/session/root'', msg_pattern = ''s''\<rparr>),
    (tag_sigconnect, \<lparr>msg_text = ''/signal/connect'', msg_pattern = ''ss''\<rparr>),
    (tag_sigcreated, \<lparr>msg_text = ''/signal/created'', msg_pattern = ''ssfff''\<rparr>),
    (tag_sigdisconnect, \<lparr>msg_text = ''/signal/disconnect'', msg_pattern = ''ss''\<rparr>),
    (tag_sighello, \<lparr>msg_text = ''/signal/hello'', msg_pattern = ''ss''\<rparr>),
    (tag_siglist, \<lparr>msg_text = ''/signal/list'', msg_pattern = NIL\<rparr>),
    (tag_sigremoved, \<lparr>msg_text = ''/signal/removed'', msg_pattern = ''s''\<rparr>),
    (tag_sigrenamed, \<lparr>msg_text = ''/signal/renamed'', msg_pattern = ''ss''\<rparr>),
    (tag_sigreply, \<lparr>msg_text = ''/reply'', msg_pattern = NIL\<rparr>),
    (tag_srvabort, \<lparr>msg_text = ''/nsm/server/abort'', msg_pattern = ''''\<rparr>),
    (tag_srvadd, \<lparr>msg_text = ''/nsm/server/add'', msg_pattern = ''s''\<rparr>),
    (tag_srvannounce, \<lparr>msg_text = ''/nsm/server/announce'', msg_pattern = ''sssiii''\<rparr>),
    (tag_srvbroadcast, \<lparr>msg_text = ''/nsm/server/broadcast'', msg_pattern = NIL\<rparr>),
    (tag_srvclose, \<lparr>msg_text = ''/nsm/server/close'', msg_pattern = ''''\<rparr>),
    (tag_srvduplicate, \<lparr>msg_text = ''/nsm/server/duplicate'', msg_pattern = ''s''\<rparr>),
    (tag_srvlist, \<lparr>msg_text = ''/nsm/server/list'', msg_pattern = ''''\<rparr>),
    (tag_srvmessage, \<lparr>msg_text = ''/nsm/gui/server/message'', msg_pattern = ''s''\<rparr>),
    (tag_srvnew, \<lparr>msg_text = ''/nsm/server/new'', msg_pattern = ''s''\<rparr>),
    (tag_srvopen, \<lparr>msg_text = ''/nsm/server/open'', msg_pattern = ''s''\<rparr>),
    (tag_srvquit, \<lparr>msg_text = ''/nsm/server/quit'', msg_pattern = ''''\<rparr>),
    (tag_srvreply, \<lparr>msg_text = ''/reply'', msg_pattern = ''s''\<rparr>),
    (tag_srvsave, \<lparr>msg_text = ''/nsm/server/save'', msg_pattern = ''''\<rparr>),
    (tag_stripbynumber, \<lparr>msg_text = '''', msg_pattern = ''''\<rparr>)
  ]"

text \<open>\<^verbatim>\<open>tag_lookup(table, t, message, pattern)\<close>: \<^verbatim>\<open>table.find(t)\<close>; the two output
  parameters are the value of the result, and \<open>None\<close> is the return value \<^verbatim>\<open>false\<close>.\<close>

definition tag_lookup_table :: "lookup \<Rightarrow> tag \<Rightarrow> (string \<times> string) option" where
  "tag_lookup_table table t =
     (case map_of table t of
        None \<Rightarrow> None
      | Some m \<Rightarrow> Some (msg_text m, msg_pattern m))"

definition tag_lookup :: "tag \<Rightarrow> (string \<times> string) option" where
  "tag_lookup t = tag_lookup_table all_messages t"

text \<open>\<^verbatim>\<open>tag_message(t)\<close>: the path of a tag, the empty string when the tag has no entry.\<close>

definition tag_message :: "tag \<Rightarrow> string" where
  "tag_message t =
     (case map_of all_messages t of
        None \<Rightarrow> []
      | Some m \<Rightarrow> msg_text m)"

text \<open>
  \<^verbatim>\<open>tag_reverse_lookup(table, message, pattern)\<close>: the loop over the table that stops at
  the first entry whose text is the message and, unless the pattern asked for is
  \<^verbatim>\<open>"?"\<close>, whose pattern is the pattern; \<^verbatim>\<open>tag::illegal\<close> when no entry matches.
\<close>

fun tag_reverse_lookup_table :: "lookup \<Rightarrow> string \<Rightarrow> string \<Rightarrow> tag" where
  "tag_reverse_lookup_table [] message pattern = tag_illegal"
| "tag_reverse_lookup_table (m # table) message pattern =
     (let match = (msg_text (snd m) = message);
          match = (if match then (if pattern \<noteq> ''?'' then msg_pattern (snd m) = pattern else match)
                   else match)
      in if match then fst m else tag_reverse_lookup_table table message pattern)"

definition tag_reverse_lookup :: "string \<Rightarrow> string \<Rightarrow> tag" where
  "tag_reverse_lookup message pattern = tag_reverse_lookup_table all_messages message pattern"

text \<open>An identifier shares its (path, signature) pair when another entry of the table
  carries the same pair.\<close>

definition shares_pair :: "tag \<Rightarrow> bool" where
  "shares_pair t =
     (\<exists>e \<in> set all_messages. fst e \<noteq> t \<and> Some (snd e) = map_of all_messages t)"

section \<open>Values and messages (liblo, osc/lowrapper.hpp)\<close>

text \<open>
  A C \<^verbatim>\<open>float\<close> is its IEEE-754 binary32 bit pattern. The code only stores, sends and
  compares floats; \<open>float_eq\<close> and \<open>float_ne\<close> are the operators \<^verbatim>\<open>==\<close> and \<^verbatim>\<open>!=\<close>: a
  NaN differs from everything, the two zeros are equal, and any other two values are
  equal exactly when their bits are.
\<close>

type_synonym float = "32 word"

definition float_isnan :: "float \<Rightarrow> bool" where
  "float_isnan x \<longleftrightarrow> x AND 0x7F800000 = 0x7F800000 \<and> x AND 0x007FFFFF \<noteq> 0"

definition float_eq :: "float \<Rightarrow> float \<Rightarrow> bool" where
  "float_eq x y \<longleftrightarrow>
     \<not> float_isnan x \<and> \<not> float_isnan y \<and>
     (x = y \<or> (x AND 0x7FFFFFFF = 0 \<and> y AND 0x7FFFFFFF = 0))"

definition float_ne :: "float \<Rightarrow> float \<Rightarrow> bool" where
  "float_ne x y \<longleftrightarrow> \<not> float_eq x y"

text \<open>What stops a call: the undefined behaviour the code can run into.\<close>

datatype error =
    Bad_argv_read        \<comment> \<open>\<^verbatim>\<open>argv[i]\<close> read with \<^verbatim>\<open>i >= argc\<close>\<close>
  | Null_string          \<comment> \<open>a \<^verbatim>\<open>std::string\<close> built from a null pointer\<close>
  | Bad_pointer          \<comment> \<open>a null or dangling object pointer dereferenced\<close>
  | Empty_string_back    \<comment> \<open>\<^verbatim>\<open>back()\<close> of an empty string\<close>

text \<open>
  \<^verbatim>\<open>lo_arg\<close> is a union. The handlers read an argument as a string (\<^verbatim>\<open>&argv[i]->s\<close>) or
  as a float (\<^verbatim>\<open>argv[i]->f\<close>); an argument of the model carries both readings.
\<close>

record lo_arg =
  arg_s :: string
  arg_f :: float

text \<open>An \<^verbatim>\<open>lo_address\<close>; \<^verbatim>\<open>lo_address_get_port\<close> is the field \<open>a_port\<close>.\<close>

record lo_address =
  a_host :: string
  a_port :: string

text \<open>An inbound \<^verbatim>\<open>lo_message\<close>: its source (\<^verbatim>\<open>lo_message_get_source\<close>), types and
  arguments.\<close>

record lo_message =
  msg_source :: lo_address
  msg_types :: string
  msg_argv :: "lo_arg list"

datatype osc_value = OscS string | OscF float

text \<open>
  What the endpoint has put on the wire, in order: \<open>Send to path types args\<close> is a
  \<^verbatim>\<open>lo_send_from(to, server(), LO_TT_IMMEDIATE, path, types, args...)\<close>, with the path a
  pointer that may be null; \<open>Send_message to path msg\<close> is
  \<^verbatim>\<open>lo_send_message(to, path, msg)\<close>, which forwards a received message as it is.
\<close>

datatype packet =
    Send lo_address "string option" string "osc_value list"
  | Send_message lo_address string lo_message

text \<open>\<^verbatim>\<open>argv[i]\<close>: outside the \<^verbatim>\<open>argc\<close> arguments of the message there is nothing to read
  (\<^verbatim>\<open>argv\<close> is null or ends there).\<close>

definition argv_at :: "lo_arg list \<Rightarrow> nat \<Rightarrow> error + lo_arg" where
  "argv_at argv i = (if i < length argv then Inr (argv ! i) else Inl Bad_argv_read)"

definition osc_msg_handled :: int where
  "osc_msg_handled = 0"

definition osc_msg_unhandled :: int where
  "osc_msg_unhandled = - 1"

section \<open>Signals, peers, translations (osc/signal.hpp, osc/endpoint.hpp)\<close>

text \<open>\<^verbatim>\<open>signal::direction\<close> and \<^verbatim>\<open>signal::state\<close>; the enumerators carry the name of the class.\<close>

datatype direction = signal_input | signal_output | signal_bidirectional

datatype signal_state = signal_created | signal_removed

record parameter_limits =
  pl_min :: float
  pl_max :: float
  pl_default_value :: float

text \<open>
  \<^verbatim>\<open>class signal\<close>. Objects live in the store of the endpoint and are named by their
  address, a number. \<open>m_endpoint\<close> is the back pointer to the owning endpoint: there is
  one endpoint, so the field says whether the pointer is set. \<open>m_peer\<close> is the peer a
  remote signal came from, as its position in \<open>m_peers\<close> (peers are never removed).
  \<open>m_handler\<close> and \<open>m_user_data\<close> are opaque pointers the code stores and hands back.
\<close>

record signal =
  m_endpoint :: bool
  m_peer :: "nat option"
  m_path :: string
  m_documentation :: string
  m_value :: float
  m_direction :: direction
  m_handler :: "nat option"
  m_user_data :: "nat option"
  m_parameter_limits :: parameter_limits

record peer =
  p_scanning :: bool
  p_name :: string
  p_addr :: lo_address
  p_signals :: "nat list"

text \<open>\<^verbatim>\<open>class method\<close> (osc/method.hpp); its \<^verbatim>\<open>m_path\<close> and \<^verbatim>\<open>m_documentation\<close> are
  suffixed, the names being taken by \<open>signal\<close>.\<close>

record osc_method =
  m_path_method :: string
  m_typespec :: string
  m_documentation_method :: string

text \<open>\<^verbatim>\<open>endpoint::translation_destination\<close>; its \<^verbatim>\<open>m_path\<close> is \<open>m_path_td\<close>.\<close>

record translation_destination =
  m_path_td :: string
  m_current_value :: float
  m_suppress_feedback :: bool

text \<open>The default constructor: an empty path, the value \<^verbatim>\<open>-1.0f\<close>, no suppression.\<close>

definition translation_destination_new :: translation_destination where
  "translation_destination_new =
     \<lparr>m_path_td = [], m_current_value = 0xBF800000, m_suppress_feedback = False\<rparr>"

text \<open>
  \<^verbatim>\<open>translation_map\<close>, a \<^verbatim>\<open>std::map<std::string, translation_destination>\<close>: the list of its
  entries in the order of iteration, which is the order of the keys (\<^verbatim>\<open>std::string\<close>
  compares bytewise, as the lexicographic order on \<open>string\<close> does). A list is a map
  when its keys increase strictly.
\<close>

type_synonym translation_map = "(string \<times> translation_destination) list"

definition is_map :: "translation_map \<Rightarrow> bool" where
  "is_map m \<longleftrightarrow> sorted_wrt (<) (map fst m)"

text \<open>\<^verbatim>\<open>m[a]\<close>: the map with a default entry put in at \<open>a\<close> when it has none.\<close>

fun subscript :: "translation_map \<Rightarrow> string \<Rightarrow> translation_map" where
  "subscript [] a = [(a, translation_destination_new)]"
| "subscript ((k, t) # m) a =
     (if a = k then (k, t) # m
      else if a < k then (a, translation_destination_new) # (k, t) # m
      else (k, t) # subscript m a)"

text \<open>An assignment through a reference to the entry at \<open>a\<close>.\<close>

fun assign :: "translation_map \<Rightarrow> string \<Rightarrow> (translation_destination \<Rightarrow> translation_destination)
    \<Rightarrow> translation_map" where
  "assign [] a f = []"
| "assign ((k, t) # m) a f = (if a = k then (k, f t) # m else (k, t) # assign m a f)"

text \<open>
  A method of the liblo server: the path and the typespec it was added with (null
  pointers are \<open>None\<close>) and the callback with its user data. \<open>Osc_sig_handler o\<close> is
  \<^verbatim>\<open>endpoint::osc_sig_handler\<close> with the signal at address \<open>o\<close> as user data;
  \<open>Endpoint_handler t u\<close> is the static member function that \<^verbatim>\<open>endpoint::add_methods\<close>
  registers for the tag \<open>t\<close> (\<^verbatim>\<open>osc_sig_hello\<close> for \<^verbatim>\<open>tag::sighello\<close>, \<^verbatim>\<open>osc_reply\<close> for
  \<^verbatim>\<open>tag::sigreply\<close>, \<^verbatim>\<open>osc_generic\<close> for \<^verbatim>\<open>tag::generic\<close> and so on), with the endpoint as
  user data when \<open>u\<close> holds and a null pointer otherwise; any other callback is a number.
\<close>

datatype handler = Osc_sig_handler nat | Endpoint_handler tag bool | Osc_callback nat

record lo_method =
  lm_path :: "string option"
  lm_typespec :: "string option"
  lm_handler :: handler

text \<open>Callbacks the endpoint has invoked, in order.\<close>

datatype callback = Peer_scan_complete | Peer_signal nat signal_state

text \<open>
  \<^verbatim>\<open>class endpoint\<close> with the members of its base \<^verbatim>\<open>lowrapper\<close> that the code below uses.
  \<open>m_server\<close> is the method table of the liblo server and \<open>m_server_url\<close> its URL
  (\<^verbatim>\<open>lo_server_get_url\<close>); the two callback members say whether a callback is set;
  \<open>objects\<close> is the store of signal objects with \<open>next_object\<close> the next free address;
  \<open>sent\<close> and \<open>invoked\<close> record the packets sent and the callbacks invoked.
\<close>

record endpoint =
  m_server :: "lo_method list"
  m_server_url :: string
  m_address :: lo_address
  m_peers :: "peer list"
  m_signals :: "nat list"
  m_methods :: "osc_method list"
  m_learning_path :: string
  m_translations :: translation_map
  m_name :: string
  m_peer_scan_complete_callback :: bool
  m_peer_signal_callback :: bool
  objects :: "nat \<Rightarrow> signal option"
  next_object :: nat
  sent :: "packet list"
  invoked :: "callback list"

section \<open>The liblo server and the send functions (osc/lowrapper.cpp)\<close>

definition lo_send_from ::
  "endpoint \<Rightarrow> lo_address \<Rightarrow> string option \<Rightarrow> string \<Rightarrow> osc_value list \<Rightarrow> endpoint" where
  "lo_send_from ep to path types args = ep\<lparr>sent := sent ep @ [Send to path types args]\<rparr>"

definition lo_send_message :: "endpoint \<Rightarrow> lo_address \<Rightarrow> string \<Rightarrow> lo_message \<Rightarrow> endpoint" where
  "lo_send_message ep to path msg = ep\<lparr>sent := sent ep @ [Send_message to path msg]\<rparr>"

text \<open>The overloads of \<^verbatim>\<open>lowrapper::send\<close> that the functions below call, named by
  their typespec. Each passes its path through \<^verbatim>\<open>OPTR\<close>.\<close>

definition send_empty :: "endpoint \<Rightarrow> lo_address \<Rightarrow> string \<Rightarrow> endpoint" where
  "send_empty ep to path = lo_send_from ep to (osc_message_ptr path) [] []"

definition send_f :: "endpoint \<Rightarrow> lo_address \<Rightarrow> string \<Rightarrow> float \<Rightarrow> endpoint" where
  "send_f ep to path v = lo_send_from ep to (osc_message_ptr path) ''f'' [OscF v]"

definition send_s :: "endpoint \<Rightarrow> lo_address \<Rightarrow> string \<Rightarrow> string \<Rightarrow> endpoint" where
  "send_s ep to path v = lo_send_from ep to (osc_message_ptr path) ''s'' [OscS v]"

definition send_ss :: "endpoint \<Rightarrow> lo_address \<Rightarrow> string \<Rightarrow> string \<Rightarrow> string \<Rightarrow> endpoint" where
  "send_ss ep to path v1 v2 =
     lo_send_from ep to (osc_message_ptr path) ''ss'' [OscS v1, OscS v2]"

text \<open>A \<^verbatim>\<open>const char *\<close> made into the \<^verbatim>\<open>std::string\<close> a parameter asks for.\<close>

definition string_of_ptr :: "string option \<Rightarrow> error + string" where
  "string_of_ptr p = (case p of None \<Rightarrow> Inl Null_string | Some s \<Rightarrow> Inr s)"

text \<open>
  \<^verbatim>\<open>lo_server_add_method\<close> appends a method. \<^verbatim>\<open>lo_server_del_method(server, path, typespec)\<close>
  removes every method whose typespec is the given one (both null, or the same string)
  and whose path is the given one (both null, or the same string) or is matched by it as
  a pattern. Pattern matching is liblo's own: \<open>pattern_match p q\<close> says that the path
  \<open>p\<close> asked for is a pattern that matches the method path \<open>q\<close>, and the functions that
  delete methods take it as a parameter.
\<close>

definition lo_server_add_method ::
  "endpoint \<Rightarrow> string option \<Rightarrow> string option \<Rightarrow> handler \<Rightarrow> endpoint" where
  "lo_server_add_method ep path typespec h =
     ep\<lparr>m_server := m_server ep @ [\<lparr>lm_path = path, lm_typespec = typespec, lm_handler = h\<rparr>]\<rparr>"

definition del_matches ::
  "(string \<Rightarrow> string \<Rightarrow> bool) \<Rightarrow> string option \<Rightarrow> string option \<Rightarrow> lo_method \<Rightarrow> bool" where
  "del_matches pattern_match path typespec m \<longleftrightarrow>
     (lm_path m = path \<or>
      (case (path, lm_path m) of (Some p, Some q) \<Rightarrow> pattern_match p q | _ \<Rightarrow> False)) \<and>
     lm_typespec m = typespec"

definition lo_server_del_method ::
  "(string \<Rightarrow> string \<Rightarrow> bool) \<Rightarrow> endpoint \<Rightarrow> string option \<Rightarrow> string option \<Rightarrow> endpoint" where
  "lo_server_del_method pattern_match ep path typespec =
     ep\<lparr>m_server := filter (\<lambda>m. \<not> del_matches pattern_match path typespec m) (m_server ep)\<rparr>"

section \<open>Signals (osc/signal.cpp)\<close>

text \<open>The constructor \<^verbatim>\<open>signal::signal(path, dir)\<close>.\<close>

definition signal_new :: "string \<Rightarrow> direction \<Rightarrow> signal" where
  "signal_new path dir =
     \<lparr>m_endpoint = False, m_peer = None, m_path = path, m_documentation = [],
      m_value = 0, m_direction = dir, m_handler = None, m_user_data = None,
      m_parameter_limits = \<lparr>pl_min = 0, pl_max = 0, pl_default_value = 0\<rparr>\<rparr>"

definition set_parameter_limits :: "signal \<Rightarrow> float \<Rightarrow> float \<Rightarrow> float \<Rightarrow> signal" where
  "set_parameter_limits s mn mx default_value =
     s\<lparr>m_parameter_limits := \<lparr>pl_min = mn, pl_max = mx, pl_default_value = default_value\<rparr>,
       m_value := default_value\<rparr>"

text \<open>\<^verbatim>\<open>new (std::nothrow) signal\<close>: the object is put at the next free address.
  Allocation is taken to succeed.\<close>

definition new_signal :: "endpoint \<Rightarrow> signal \<Rightarrow> nat \<times> endpoint" where
  "new_signal ep s =
     (next_object ep,
      ep\<lparr>objects := (objects ep)(next_object ep \<mapsto> s), next_object := Suc (next_object ep)\<rparr>)"

section \<open>The endpoint (osc/endpoint.cpp)\<close>

text \<open>The searches return the position of the peer found, or the address of the signal
  found; \<open>None\<close> is the null pointer.\<close>

fun first_index :: "('a \<Rightarrow> bool) \<Rightarrow> 'a list \<Rightarrow> nat option" where
  "first_index P [] = None"
| "first_index P (x # xs) = (if P x then Some 0 else map_option Suc (first_index P xs))"

definition has_path :: "endpoint \<Rightarrow> string \<Rightarrow> nat \<Rightarrow> bool" where
  "has_path ep path s = (case objects ep s of None \<Rightarrow> False | Some sg \<Rightarrow> m_path sg = path)"

definition find_peer_signal_by_path :: "endpoint \<Rightarrow> peer \<Rightarrow> string \<Rightarrow> nat option" where
  "find_peer_signal_by_path ep p path = find (has_path ep path) (p_signals p)"

definition find_signal_by_path :: "endpoint \<Rightarrow> string \<Rightarrow> nat option" where
  "find_signal_by_path ep path = find (has_path ep path) (m_signals ep)"

definition address_matches :: "lo_address \<Rightarrow> lo_address \<Rightarrow> bool" where
  "address_matches addr1 addr2 = (let purl = a_port addr1; url = a_port addr2 in purl = url)"

definition find_peer_by_address :: "endpoint \<Rightarrow> lo_address \<Rightarrow> nat option" where
  "find_peer_by_address ep addr =
     (let url = a_port addr in first_index (\<lambda>mp. a_port (p_addr mp) = url) (m_peers ep))"

definition find_peer_by_name :: "endpoint \<Rightarrow> string \<Rightarrow> nat option" where
  "find_peer_by_name ep name = first_index (\<lambda>mp. name = p_name mp) (m_peers ep)"

text \<open>
  The constructor \<^verbatim>\<open>endpoint::endpoint()\<close>: every collection is empty and the
  scan-complete callback is null. There is no server yet: no method, no URL, and a null
  address, which is the address with an empty host and port here. The member
  \<^verbatim>\<open>m_peer_signal_callback\<close> is not among the initialisers of the constructor and nothing
  assigns it, so that it holds what the memory held: the parameter \<open>peer_signal_callback\<close>.
\<close>

definition endpoint_new :: "bool \<Rightarrow> endpoint" where
  "endpoint_new peer_signal_callback =
     \<lparr>m_server = [], m_server_url = [], m_address = \<lparr>a_host = [], a_port = []\<rparr>,
      m_peers = [], m_signals = [],
      m_methods = [], m_learning_path = [], m_translations = [], m_name = [],
      m_peer_scan_complete_callback = False, m_peer_signal_callback = peer_signal_callback,
      objects = Map.empty, next_object = 0, sent = [], invoked = []\<rparr>"

text \<open>\<^verbatim>\<open>lowrapper::add_osc_method(t, f, userdata)\<close> adds the callback at the path and the
  typespec of the tag, both through \<^verbatim>\<open>OPTR\<close>; \<^verbatim>\<open>endpoint::add_methods(userdata)\<close> adds the
  nine callbacks of the endpoint.\<close>

definition add_osc_method :: "endpoint \<Rightarrow> tag \<Rightarrow> handler \<Rightarrow> endpoint" where
  "add_osc_method ep t f =
     (case tag_lookup t of
        None \<Rightarrow> ep
      | Some (msg, pattern) \<Rightarrow>
          lo_server_add_method ep (osc_message_ptr msg) (osc_message_ptr pattern) f)"

definition add_methods :: "endpoint \<Rightarrow> bool \<Rightarrow> endpoint" where
  "add_methods ep userdata =
     (let ep1 = add_osc_method ep tag_sighello (Endpoint_handler tag_sighello userdata);
          ep2 = add_osc_method ep1 tag_sigconnect (Endpoint_handler tag_sigconnect userdata);
          ep3 = add_osc_method ep2 tag_sigdisconnect (Endpoint_handler tag_sigdisconnect userdata);
          ep4 = add_osc_method ep3 tag_sigrenamed (Endpoint_handler tag_sigrenamed userdata);
          ep5 = add_osc_method ep4 tag_sigremoved (Endpoint_handler tag_sigremoved userdata);
          ep6 = add_osc_method ep5 tag_sigcreated (Endpoint_handler tag_sigcreated userdata);
          ep7 = add_osc_method ep6 tag_siglist (Endpoint_handler tag_siglist userdata);
          ep8 = add_osc_method ep7 tag_sigreply (Endpoint_handler tag_sigreply userdata)
      in add_osc_method ep8 tag_generic (Endpoint_handler tag_generic userdata))"

text \<open>
  \<^verbatim>\<open>endpoint::init(proto, portname, usethis)\<close>, which is \<^verbatim>\<open>lowrapper::init\<close>, when it
  succeeds: liblo has made a server, whose URL is \<open>url\<close>, and an address from that URL
  (\<open>new_from_url\<close> is liblo's \<^verbatim>\<open>lo_address_new_from_url\<close>), and the virtual \<^verbatim>\<open>add_methods\<close>
  has run with the endpoint or a null pointer as user data.
\<close>

definition init :: "(string \<Rightarrow> lo_address) \<Rightarrow> endpoint \<Rightarrow> string \<Rightarrow> bool \<Rightarrow> endpoint" where
  "init new_from_url ep url usethis =
     add_methods (ep\<lparr>m_server := [], m_server_url := url, m_address := new_from_url url\<rparr>) usethis"

subsection \<open>Peer discovery\<close>

text \<open>
  \<^verbatim>\<open>lo_address_new_from_url\<close> is liblo's; the functions that call it take it as the
  parameter \<open>new_from_url\<close>, and it is taken to return an address.
  \<^verbatim>\<open>endpoint::hello(url)\<close> sends \<^verbatim>\<open>/signal/hello\<close> with our name and our URL.
\<close>

definition hello :: "(string \<Rightarrow> lo_address) \<Rightarrow> endpoint \<Rightarrow> string \<Rightarrow> endpoint" where
  "hello new_from_url ep url =
     (let addr = new_from_url url; our_url = m_server_url ep
      in send_ss ep addr (tag_message tag_sighello) (m_name ep) our_url)"

text \<open>\<^verbatim>\<open>endpoint::add_peer\<close>: a new peer at the end of \<open>m_peers\<close>; the result is its
  position. The new peer's \<open>p_scanning\<close> is not initialised by the code; the one
  caller, \<open>scan_peer\<close>, sets it at once.\<close>

definition add_peer ::
  "(string \<Rightarrow> lo_address) \<Rightarrow> endpoint \<Rightarrow> string \<Rightarrow> string \<Rightarrow> nat \<times> endpoint" where
  "add_peer new_from_url ep name url =
     (let p = \<lparr>p_scanning = False, p_name = name, p_addr = new_from_url url, p_signals = []\<rparr>
      in (length (m_peers ep), ep\<lparr>m_peers := m_peers ep @ [p]\<rparr>))"

definition scan_peer :: "(string \<Rightarrow> lo_address) \<Rightarrow> endpoint \<Rightarrow> string \<Rightarrow> string \<Rightarrow> endpoint" where
  "scan_peer new_from_url ep name url =
     (let (i, ep1) = add_peer new_from_url ep name url;
          p = (m_peers ep1 ! i)\<lparr>p_scanning := True\<rparr>;
          ep2 = ep1\<lparr>m_peers := (m_peers ep1)[i := p]\<rparr>
      in send_empty ep2 (p_addr p) (tag_message tag_siglist))"

definition handle_hello ::
  "(string \<Rightarrow> lo_address) \<Rightarrow> endpoint \<Rightarrow> string \<Rightarrow> string \<Rightarrow> endpoint" where
  "handle_hello new_from_url ep peer_name peer_url =
     (case find_peer_by_name ep peer_name of
        None \<Rightarrow>
          (let ep1 = scan_peer new_from_url ep peer_name peer_url
           in if m_name ep1 \<noteq> [] then hello new_from_url ep1 peer_url else ep1)
      | Some i \<Rightarrow>
          (let p = m_peers ep ! i; addr = new_from_url peer_url
           in if address_matches addr (p_addr p) then ep
              else
                (let p1 = p\<lparr>p_addr := addr, p_scanning := True\<rparr>;
                     ep1 = ep\<lparr>m_peers := (m_peers ep)[i := p1]\<rparr>;
                     ep2 = send_empty ep1 (p_addr p1) (tag_message tag_siglist)
                 in if m_name ep2 \<noteq> [] then hello new_from_url ep2 peer_url else ep2)))"

subsection \<open>Translations\<close>

definition add_translation :: "endpoint \<Rightarrow> string \<Rightarrow> string \<Rightarrow> endpoint" where
  "add_translation ep a b =
     ep\<lparr>m_translations := assign (subscript (m_translations ep) a) a (\<lambda>t. t\<lparr>m_path_td := b\<rparr>)\<rparr>"

text \<open>\<^verbatim>\<open>endpoint::get_connections(path)\<close>: the sources of the translations whose
  destination is \<open>path\<close>, in the order of the map.\<close>

fun get_connections_loop :: "translation_map \<Rightarrow> string \<Rightarrow> string list" where
  "get_connections_loop [] path = []"
| "get_connections_loop ((k, t) # m) path =
     (if m_path_td t = path then k # get_connections_loop m path
      else get_connections_loop m path)"

definition get_connections :: "endpoint \<Rightarrow> string \<Rightarrow> string list" where
  "get_connections ep path = get_connections_loop (m_translations ep) path"

text \<open>The loop of \<^verbatim>\<open>endpoint::rename_translation_destination\<close>, with its \<^verbatim>\<open>break\<close> after
  the first entry whose destination is \<open>a\<close>.\<close>

fun rename_destination_loop :: "translation_map \<Rightarrow> string \<Rightarrow> string \<Rightarrow> translation_map" where
  "rename_destination_loop [] a b = []"
| "rename_destination_loop ((k, t) # m) a b =
     (if m_path_td t = a then (k, t\<lparr>m_path_td := b\<rparr>) # m
      else (k, t) # rename_destination_loop m a b)"

definition rename_translation_destination :: "endpoint \<Rightarrow> string \<Rightarrow> string \<Rightarrow> endpoint" where
  "rename_translation_destination ep a b =
     ep\<lparr>m_translations := rename_destination_loop (m_translations ep) a b\<rparr>"

text \<open>
  \<^verbatim>\<open>endpoint::send_feedback(path, v)\<close>. The inner loop sends \<open>v\<close> to every peer at the
  source path, which the code passes as \<^verbatim>\<open>OPTR(spath)\<close> where a \<^verbatim>\<open>std::string\<close> is
  expected. The outer loop goes through the entries of the map in order, each entry
  being updated in place.
\<close>

fun send_feedback_peers ::
  "endpoint \<Rightarrow> peer list \<Rightarrow> string option \<Rightarrow> float \<Rightarrow> error + endpoint" where
  "send_feedback_peers ep [] spath v = Inr ep"
| "send_feedback_peers ep (mp # peers) spath v =
     (case string_of_ptr spath of
        Inl e \<Rightarrow> Inl e
      | Inr path \<Rightarrow> send_feedback_peers (send_f ep (p_addr mp) path v) peers spath v)"

fun send_feedback_loop ::
  "endpoint \<Rightarrow> translation_map \<Rightarrow> string \<Rightarrow> float \<Rightarrow> error + endpoint \<times> translation_map" where
  "send_feedback_loop ep [] path v = Inr (ep, [])"
| "send_feedback_loop ep ((spath, t) # m) path v =
     (if m_path_td t = path then
        (if \<not> m_suppress_feedback t \<and> float_ne (m_current_value t) v then
           (case send_feedback_peers ep (m_peers ep) (osc_message_ptr spath) v of
              Inl e \<Rightarrow> Inl e
            | Inr ep1 \<Rightarrow>
                (case send_feedback_loop ep1 m path v of
                   Inl e \<Rightarrow> Inl e
                 | Inr (ep2, m') \<Rightarrow>
                     Inr (ep2, (spath, t\<lparr>m_current_value := v, m_suppress_feedback := False\<rparr>) # m')))
         else
           (case send_feedback_loop ep m path v of
              Inl e \<Rightarrow> Inl e
            | Inr (ep2, m') \<Rightarrow> Inr (ep2, (spath, t\<lparr>m_suppress_feedback := False\<rparr>) # m')))
      else
        (case send_feedback_loop ep m path v of
           Inl e \<Rightarrow> Inl e
         | Inr (ep2, m') \<Rightarrow> Inr (ep2, (spath, t) # m')))"

definition send_feedback :: "endpoint \<Rightarrow> string \<Rightarrow> float \<Rightarrow> error + endpoint" where
  "send_feedback ep path v =
     (case send_feedback_loop ep (m_translations ep) path v of
        Inl e \<Rightarrow> Inl e
      | Inr (ep1, m) \<Rightarrow> Inr (ep1\<lparr>m_translations := m\<rparr>))"

text \<open>
  \<^verbatim>\<open>endpoint::osc_generic\<close>. A handler gets the path, the types, the arguments (\<^verbatim>\<open>argc\<close>
  is their number), the message and the user data, here the endpoint or a null
  pointer; it returns \<^verbatim>\<open>osc_msg_handled()\<close> or \<^verbatim>\<open>osc_msg_unhandled()\<close> and the endpoint as
  it has become. \<^verbatim>\<open>util::strncompare\<close> is not part of this library and is the parameter
  \<open>strncompare\<close>.
\<close>

fun list_methods ::
  "(string \<Rightarrow> string \<Rightarrow> nat \<Rightarrow> bool) \<Rightarrow> endpoint \<Rightarrow> osc_method list \<Rightarrow> lo_address \<Rightarrow> string \<Rightarrow> endpoint" where
  "list_methods strncompare ep [] src path = ep"
| "list_methods strncompare ep (m # ms) src path =
     (if m_path_method m = [] then list_methods strncompare ep ms src path
      else if strncompare (m_path_method m) path (length path)
      then list_methods strncompare
             (send_ss ep src (tag_message tag_reply) path (m_path_method m)) ms src path
      else list_methods strncompare ep ms src path)"

definition osc_generic ::
  "(string \<Rightarrow> string \<Rightarrow> nat \<Rightarrow> bool) \<Rightarrow> endpoint option \<Rightarrow> string \<Rightarrow> string \<Rightarrow> lo_arg list
    \<Rightarrow> lo_message \<Rightarrow> error + int \<times> endpoint option" where
  "osc_generic strncompare userdata path types argv msg =
     (case userdata of
        None \<Rightarrow> Inr (osc_msg_unhandled, None)
      | Some ep \<Rightarrow>
          (let argc = int (length argv) in
           if argc \<ge> 1 then
             (if m_learning_path ep \<noteq> [] then
                (let ep1 = add_translation ep path (m_learning_path ep)
                 in Inr (osc_msg_handled, Some (ep1\<lparr>m_learning_path := []\<rparr>)))
              else
                (case map_of (m_translations ep) path of
                   Some t \<Rightarrow>
                     (let dpath = m_path_td t;
                          t1 = (if types = ''f'' then t\<lparr>m_current_value := arg_f (argv ! 0)\<rparr> else t);
                          t2 = t1\<lparr>m_suppress_feedback := True\<rparr>;
                          ep1 = ep\<lparr>m_translations := assign (m_translations ep) path (\<lambda>_. t2)\<rparr>
                      in Inr (osc_msg_handled, Some (lo_send_message ep1 (m_address ep1) dpath msg)))
                 | None \<Rightarrow>
                     (if path = [] then Inl Empty_string_back
                      else if last path \<noteq> CHR ''/'' then Inr (osc_msg_unhandled, Some ep)
                      else
                        (let ep1 = list_methods strncompare ep (m_methods ep) (msg_source msg) path
                         in Inr (osc_msg_handled,
                              Some (send_s ep1 (msg_source msg) (tag_message tag_srvreply) path))))))
           else Inr (osc_msg_handled, Some ep)))"

subsection \<open>Replies and remote signals\<close>

text \<open>\<^verbatim>\<open>endpoint::osc_params_check\<close>; the pointers are options.\<close>

definition osc_params_check ::
  "string option \<Rightarrow> string option \<Rightarrow> lo_arg list option \<Rightarrow> int \<Rightarrow> bool" where
  "osc_params_check path types argv argc =
     (let result = (path \<noteq> None \<and> types \<noteq> None)
      in if result then (if argc > 0 then argv \<noteq> None else result) else result)"

definition direction_of :: "string \<Rightarrow> direction" where
  "direction_of directionname =
     (if directionname = ''in'' then signal_input
      else if directionname = ''out'' then signal_output
      else signal_bidirectional)"

text \<open>The signal a peer announces is built, allocated, and appended to the peer's
  \<open>p_signals\<close>; \<open>i\<close> is the position of the peer.\<close>

definition add_peer_signal ::
  "endpoint \<Rightarrow> nat \<Rightarrow> string \<Rightarrow> direction \<Rightarrow> float \<Rightarrow> float \<Rightarrow> float \<Rightarrow> nat \<times> endpoint" where
  "add_peer_signal ep i name dir mn mx default_value =
     (let (s, ep1) =
            new_signal ep
              (set_parameter_limits ((signal_new name dir)\<lparr>m_peer := Some i\<rparr>) mn mx default_value);
          p = m_peers ep1 ! i
      in (s, ep1\<lparr>m_peers := (m_peers ep1)[i := p\<lparr>p_signals := p_signals p @ [s]\<rparr>]\<rparr>))"

definition peer_signal_callback :: "endpoint \<Rightarrow> nat \<Rightarrow> signal_state \<Rightarrow> endpoint" where
  "peer_signal_callback ep s st =
     (if m_peer_signal_callback ep then ep\<lparr>invoked := invoked ep @ [Peer_signal s st]\<rparr> else ep)"

text \<open>\<^verbatim>\<open>endpoint::osc_reply\<close>. The first statement after the check of the user data
  reads \<^verbatim>\<open>argv[0]\<close>.\<close>

definition osc_reply ::
  "endpoint option \<Rightarrow> string \<Rightarrow> string \<Rightarrow> lo_arg list \<Rightarrow> lo_message
    \<Rightarrow> error + int \<times> endpoint option" where
  "osc_reply userdata path types argv msg =
     (case userdata of
        None \<Rightarrow> Inr (osc_msg_unhandled, None)
      | Some ep \<Rightarrow>
          (case argv_at argv 0 of
             Inl e \<Rightarrow> Inl e
           | Inr a0 \<Rightarrow>
               (let argc = int (length argv); sigcmd = arg_s a0 in
                if argc > 0 \<and> sigcmd = tag_message tag_siglist then
                  (case find_peer_by_address ep (msg_source msg) of
                     None \<Rightarrow> Inr (osc_msg_handled, Some ep)
                   | Some i \<Rightarrow>
                       (let p = m_peers ep ! i in
                        if argc = 1 then
                          (let ep1 = ep\<lparr>m_peers := (m_peers ep)[i := p\<lparr>p_scanning := False\<rparr>]\<rparr>;
                               ep2 = (if m_peer_scan_complete_callback ep1
                                      then ep1\<lparr>invoked := invoked ep1 @ [Peer_scan_complete]\<rparr>
                                      else ep1)
                           in Inr (osc_msg_handled, Some ep2))
                        else if argc = 6 \<and> p_scanning p then
                          (let pathname = arg_s (argv ! 1) in
                           case find_peer_signal_by_path ep p pathname of
                             Some s \<Rightarrow> Inr (osc_msg_handled, Some ep)
                           | None \<Rightarrow>
                               (let directionname = arg_s (argv ! 2);
                                    dir = direction_of directionname;
                                    (s, ep1) =
                                      add_peer_signal ep i pathname dir
                                        (arg_f (argv ! 3)) (arg_f (argv ! 4)) (arg_f (argv ! 5))
                                in Inr (osc_msg_handled, Some (peer_signal_callback ep1 s signal_created))))
                        else Inr (osc_msg_handled, Some ep)))
                else Inr (osc_msg_unhandled, Some ep))))"

text \<open>\<^verbatim>\<open>endpoint::osc_sig_created\<close>, the handler of \<^verbatim>\<open>/signal/created\<close>.\<close>

definition osc_sig_created ::
  "endpoint option \<Rightarrow> string \<Rightarrow> string \<Rightarrow> lo_arg list \<Rightarrow> lo_message
    \<Rightarrow> error + int \<times> endpoint option" where
  "osc_sig_created userdata path types argv msg =
     (let argc = int (length argv) in
      if argc \<ge> 5 then
        (case userdata of
           None \<Rightarrow> Inr (osc_msg_unhandled, None)
         | Some ep \<Rightarrow>
             (let name = arg_s (argv ! 0);
                  direction = arg_s (argv ! 1);
                  mn = arg_f (argv ! 2);
                  mx = arg_f (argv ! 3);
                  default_value = arg_f (argv ! 4)
              in case find_peer_by_address ep (msg_source msg) of
                   None \<Rightarrow> Inr (osc_msg_handled, Some ep)
                 | Some i \<Rightarrow>
                     (let dir = direction_of direction;
                          (s, ep1) = add_peer_signal ep i name dir mn mx default_value
                      in Inr (osc_msg_handled, Some (peer_signal_callback ep1 s signal_created)))))
      else Inr (osc_msg_handled, userdata))"

subsection \<open>Local signals\<close>

text \<open>\<^verbatim>\<open>endpoint::connect_signal\<close> and \<^verbatim>\<open>endpoint::disconnect_signal\<close>; \<open>s\<close> is the address
  of the signal, and the result is the value returned and the endpoint.\<close>

definition connect_signal :: "endpoint \<Rightarrow> nat \<Rightarrow> string \<Rightarrow> error + bool \<times> endpoint" where
  "connect_signal ep s signal_path =
     (case objects ep s of
        None \<Rightarrow> Inl Bad_pointer
      | Some sg \<Rightarrow>
          (if m_direction sg = signal_output then
             Inr (True,
               foldl (\<lambda>e mp. send_ss e (p_addr mp) (tag_message tag_sigconnect) (m_path sg) signal_path)
                 ep (m_peers ep))
           else Inr (True, ep)))"

definition disconnect_signal :: "endpoint \<Rightarrow> nat \<Rightarrow> string \<Rightarrow> error + bool \<times> endpoint" where
  "disconnect_signal ep s signal_path =
     (case objects ep s of
        None \<Rightarrow> Inl Bad_pointer
      | Some sg \<Rightarrow>
          (if m_direction sg = signal_output then
             Inr (True,
               foldl (\<lambda>e mp. send_ss e (p_addr mp) (tag_message tag_sigdisconnect) (m_path sg) signal_path)
                 ep (m_peers ep))
           else Inr (False, ep)))"

text \<open>\<^verbatim>\<open>endpoint::del_signal\<close>. The argument of the notice is \<^verbatim>\<open>OPTR(o->path())\<close>, passed
  where a \<^verbatim>\<open>std::string\<close> is expected; \<^verbatim>\<open>m_signals.remove(o)\<close> removes the address.\<close>

fun send_removed_peers :: "endpoint \<Rightarrow> peer list \<Rightarrow> string option \<Rightarrow> error + endpoint" where
  "send_removed_peers ep [] arg = Inr ep"
| "send_removed_peers ep (mp # peers) arg =
     (case string_of_ptr arg of
        Inl e \<Rightarrow> Inl e
      | Inr v \<Rightarrow>
          send_removed_peers (send_s ep (p_addr mp) (tag_message tag_sigremoved) v) peers arg)"

definition del_signal ::
  "(string \<Rightarrow> string \<Rightarrow> bool) \<Rightarrow> endpoint \<Rightarrow> nat \<Rightarrow> error + endpoint" where
  "del_signal pattern_match ep o_ptr =
     (case objects ep o_ptr of
        None \<Rightarrow> Inl Bad_pointer
      | Some sg \<Rightarrow>
          (let ep1 = lo_server_del_method pattern_match ep (osc_message_ptr (m_path sg)) None
           in case send_removed_peers ep1 (m_peers ep1) (osc_message_ptr (m_path sg)) of
                Inl e \<Rightarrow> Inl e
              | Inr ep2 \<Rightarrow> Inr (ep2\<lparr>m_signals := removeAll o_ptr (m_signals ep2)\<rparr>)))"

text \<open>\<^verbatim>\<open>signal::rename(path)\<close> on the signal at address \<open>o_ptr\<close>; it goes through the
  signal's \<open>m_endpoint\<close>, which the code does not check.\<close>

definition rename ::
  "(string \<Rightarrow> string \<Rightarrow> bool) \<Rightarrow> endpoint \<Rightarrow> nat \<Rightarrow> string \<Rightarrow> error + endpoint" where
  "rename pattern_match ep o_ptr path =
     (case objects ep o_ptr of
        None \<Rightarrow> Inl Bad_pointer
      | Some sg \<Rightarrow>
          (if \<not> m_endpoint sg then Inl Bad_pointer
           else
             (let newpath = m_name ep @ path;
                  ep1 = lo_server_del_method pattern_match ep (Some (m_path sg)) None;
                  ep2 = lo_server_add_method ep1 (Some newpath) None (Osc_sig_handler o_ptr);
                  ep3 = foldl (\<lambda>e p. send_ss e (p_addr p) (tag_message tag_sigrenamed)
                                         (m_path sg) newpath)
                          ep2 (m_peers ep2);
                  ep4 = rename_translation_destination ep3 (m_path sg) newpath
              in Inr (ep4\<lparr>objects := (objects ep4)(o_ptr \<mapsto> sg\<lparr>m_path := newpath\<rparr>)\<rparr>))))"

section \<open>Example states\<close>

text \<open>
  The states and messages at which the theorems below are evaluated.
  \<open>lo_address_of_url\<close> stands in for liblo's \<^verbatim>\<open>lo_address_new_from_url\<close> on URLs of the
  shape \<^verbatim>\<open>osc.udp://host:port/\<close>: the host is what stands between the scheme and the
  colon, the port what stands between the colon and the next slash.
\<close>

definition lo_address_of_url :: "string \<Rightarrow> lo_address" where
  "lo_address_of_url url =
     (let rest = drop 10 url
      in \<lparr>a_host = takeWhile (\<lambda>c. c \<noteq> CHR '':'') rest,
          a_port = takeWhile (\<lambda>c. c \<noteq> CHR ''/'') (drop 1 (dropWhile (\<lambda>c. c \<noteq> CHR '':'') rest))\<rparr>)"

text \<open>An endpoint that has been constructed, with a null \<^verbatim>\<open>m_peer_signal_callback\<close>, and
  initialised with itself as user data; and the same with the name \<^verbatim>\<open>/app\<close>.\<close>

definition ep_unnamed :: endpoint where
  "ep_unnamed = init lo_address_of_url (endpoint_new False) ''osc.udp://localhost:8000/'' True"

definition ep_started :: endpoint where
  "ep_started = ep_unnamed\<lparr>m_name := ''/app''\<rparr>"

text \<open>The same after a hello from the peer \<^verbatim>\<open>P\<close> at \<^verbatim>\<open>osc.udp://hostA:9000/\<close>.\<close>

definition ep_peer_A :: endpoint where
  "ep_peer_A = handle_hello lo_address_of_url ep_started ''P'' ''osc.udp://hostA:9000/''"

text \<open>A \<^verbatim>\<open>/signal/created\<close> message from that peer, announcing the input signal
  \<^verbatim>\<open>/x\<close> with the limits 0, 1 and the default 0.\<close>

definition created_x :: lo_message where
  "created_x =
     \<lparr>msg_source = \<lparr>a_host = ''hostA'', a_port = ''9000''\<rparr>,
      msg_types = ''ssfff'',
      msg_argv =
        [\<lparr>arg_s = ''/x'', arg_f = 0\<rparr>, \<lparr>arg_s = ''in'', arg_f = 0\<rparr>, \<lparr>arg_s = [], arg_f = 0\<rparr>,
         \<lparr>arg_s = [], arg_f = 0x3F800000\<rparr>, \<lparr>arg_s = [], arg_f = 0\<rparr>]\<rparr>"

text \<open>The local signal \<^verbatim>\<open>/app/vol\<close> of the endpoint named \<^verbatim>\<open>/app\<close>, with the limits 0
  and 1 and the default 0, and an endpoint that owns it: the signal is at address 0, in
  \<open>m_signals\<close>, with its handler registered at its path with a null typespec.\<close>

definition vol_signal :: "direction \<Rightarrow> signal" where
  "vol_signal dir =
     set_parameter_limits ((signal_new ''/app/vol'' dir)\<lparr>m_endpoint := True\<rparr>) 0 0x3F800000 0"

definition with_vol_signal :: "endpoint \<Rightarrow> direction \<Rightarrow> endpoint" where
  "with_vol_signal ep dir =
     lo_server_add_method
       ((snd (new_signal ep (vol_signal dir)))\<lparr>m_signals := m_signals ep @ [next_object ep]\<rparr>)
       (Some ''/app/vol'') None (Osc_sig_handler (next_object ep))"

text \<open>An endpoint with the local input signal \<^verbatim>\<open>/app/vol\<close> (at address 0) and two
  translations to it, from \<^verbatim>\<open>/ctl/a\<close> and from \<^verbatim>\<open>/ctl/b\<close>.\<close>

definition ep_two_routes :: endpoint where
  "ep_two_routes =
     add_translation
       (add_translation (with_vol_signal ep_started signal_input) ''/ctl/b'' ''/app/vol'')
       ''/ctl/a'' ''/app/vol''"

text \<open>The peer \<^verbatim>\<open>P\<close> while it is scanned, with three signals received so far, and the
  terminator of its listing.\<close>

definition ep_scanning :: endpoint where
  "ep_scanning =
     ep_started
       \<lparr>m_peers :=
          [\<lparr>p_scanning = True, p_name = ''P'',
            p_addr = \<lparr>a_host = ''hostA'', a_port = ''9000''\<rparr>, p_signals = [0, 1, 2]\<rparr>],
        m_peer_scan_complete_callback := True,
        objects :=
          [0 \<mapsto> (signal_new ''/a'' signal_input)\<lparr>m_peer := Some 0\<rparr>,
           1 \<mapsto> (signal_new ''/b'' signal_input)\<lparr>m_peer := Some 0\<rparr>,
           2 \<mapsto> (signal_new ''/c'' signal_output)\<lparr>m_peer := Some 0\<rparr>],
        next_object := 3\<rparr>"

definition list_done :: lo_message where
  "list_done =
     \<lparr>msg_source = \<lparr>a_host = ''hostA'', a_port = ''9000''\<rparr>,
      msg_types = ''s'',
      msg_argv = [\<lparr>arg_s = ''/signal/list'', arg_f = 0\<rparr>]\<rparr>"

text \<open>An endpoint with two peers and the local output signal \<^verbatim>\<open>/app/vol\<close> at address 0,
  and one translation, from \<^verbatim>\<open>/ctl/a\<close> to that signal.\<close>

definition ep_two_peers :: endpoint where
  "ep_two_peers =
     add_translation
       (with_vol_signal
          (handle_hello lo_address_of_url ep_peer_A ''Q'' ''osc.udp://hostB:9001/'')
          signal_output)
       ''/ctl/a'' ''/app/vol''"

text \<open>A message with one float, 0.5, sent to \<^verbatim>\<open>/ctl/a\<close> by a control surface.\<close>

definition ctl_half :: lo_message where
  "ctl_half =
     \<lparr>msg_source = \<lparr>a_host = ''surface'', a_port = ''7000''\<rparr>,
      msg_types = ''f'',
      msg_argv = [\<lparr>arg_s = [], arg_f = 0x3F000000\<rparr>]\<rparr>"

text \<open>\<open>prefix_compare\<close> stands in for \<^verbatim>\<open>util::strncompare\<close>: the first \<open>n\<close> characters of
  the two strings are the same.\<close>

definition prefix_compare :: "string \<Rightarrow> string \<Rightarrow> nat \<Rightarrow> bool" where
  "prefix_compare a b n \<longleftrightarrow> take n a = take n b"

text \<open>The endpoint with two peers after that message has been forwarded to
  \<^verbatim>\<open>/app/vol\<close>: the translation caches 0.5 and its flag is set. And the same after a
  feedback for \<^verbatim>\<open>/app/vol\<close> that the flag has suppressed: the flag is cleared.\<close>

definition ep_forwarded :: endpoint where
  "ep_forwarded =
     ep_two_peers
       \<lparr>m_translations :=
          [(''/ctl/a'', \<lparr>m_path_td = ''/app/vol'', m_current_value = 0x3F000000,
                         m_suppress_feedback = True\<rparr>)],
        sent := sent ep_two_peers @ [Send_message (m_address ep_two_peers) ''/app/vol'' ctl_half]\<rparr>"

definition ep_fed_back :: endpoint where
  "ep_fed_back =
     ep_forwarded
       \<lparr>m_translations :=
          [(''/ctl/a'', \<lparr>m_path_td = ''/app/vol'', m_current_value = 0x3F000000,
                         m_suppress_feedback = False\<rparr>)]\<rparr>"

text \<open>Two peers with the same port: after the hello of \<^verbatim>\<open>P\<close> from
  \<^verbatim>\<open>osc.udp://hostA:9000/\<close>, a hello of \<^verbatim>\<open>Q\<close> from \<^verbatim>\<open>osc.udp://hostB:9000/\<close>. And the
  terminator of the listing of \<^verbatim>\<open>Q\<close>, sent from the address of \<^verbatim>\<open>Q\<close>.\<close>

definition ep_same_port :: endpoint where
  "ep_same_port = handle_hello lo_address_of_url ep_peer_A ''Q'' ''osc.udp://hostB:9000/''"

definition list_done_Q :: lo_message where
  "list_done_Q =
     \<lparr>msg_source = \<lparr>a_host = ''hostB'', a_port = ''9000''\<rparr>,
      msg_types = ''s'',
      msg_argv = [\<lparr>arg_s = ''/signal/list'', arg_f = 0\<rparr>]\<rparr>"

text \<open>
  An endpoint without a name that owns the local input signal \<^verbatim>\<open>-\<close>, as after
  \<^verbatim>\<open>add_signal("-", ...)\<close> while no peer is known: the signal is at address 0, in
  \<open>m_signals\<close>, and its handler is registered at the null pointer that \<^verbatim>\<open>OPTR\<close> makes of
  its path. The endpoint has then received the hello of the peer \<^verbatim>\<open>P\<close>.
\<close>

definition placeholder_signal :: signal where
  "placeholder_signal =
     set_parameter_limits ((signal_new NIL signal_input)\<lparr>m_endpoint := True\<rparr>) 0 0x3F800000 0"

definition ep_placeholder :: endpoint where
  "ep_placeholder =
     handle_hello lo_address_of_url
       (lo_server_add_method
          ((snd (new_signal ep_unnamed placeholder_signal))\<lparr>m_signals := [0]\<rparr>)
          (osc_message_ptr NIL) None (Osc_sig_handler 0))
       ''P'' ''osc.udp://hostA:9000/''"

section \<open>Properties of the message registry\<close>


lemma all_messages_tags:
  "map fst all_messages = [tag_announce, tag_cliclean, tag_clidirty, tag_clihide, tag_clilabel, tag_cliloaded, tag_climessage, tag_cliopen, tag_cliprogress, tag_clisave, tag_clishow, tag_ctlannounce, tag_error, tag_generic, tag_guiannounce, tag_gui_announce, tag_guidirty, tag_guihidden, tag_guihide, tag_guilabel, tag_guimessage, tag_guinew, tag_guioption, tag_guiprogress, tag_guiremove, tag_guiresume, tag_guisave, tag_guisession, tag_guisessionname, tag_guishow, tag_guishown, tag_guisrvannounce, tag_guistatus, tag_guistop, tag_guiswitch, tag_guivisible, tag_nonaddstrip, tag_nonhello, tag_null, tag_oscping, tag_oscreply, tag_proxyargs, tag_proxycfgfile, tag_proxyerror, tag_proxyexe, tag_proxykill, tag_proxylabel, tag_proxysave, tag_proxystart, tag_proxystop, tag_proxyupdate, tag_reply, tag_replyex, tag_sessionlist, tag_sessionname, tag_sessionroot, tag_sigconnect, tag_sigcreated, tag_sigdisconnect, tag_sighello, tag_siglist, tag_sigremoved, tag_sigrenamed, tag_sigreply, tag_srvabort, tag_srvadd, tag_srvannounce, tag_srvbroadcast, tag_srvclose, tag_srvduplicate, tag_srvlist, tag_srvmessage, tag_srvnew, tag_srvopen, tag_srvquit, tag_srvreply, tag_srvsave, tag_stripbynumber]"
  by (simp add: all_messages_def)

lemma all_messages_distinct: "distinct (map fst all_messages)"
  unfolding all_messages_tags by simp

lemma all_messages_sorted: "sorted_wrt (<) (map tag_value (map fst all_messages))"
  unfolding all_messages_tags by simp

lemma all_messages_keys: "t = tag_illegal \<or> t \<in> set (map fst all_messages)"
  unfolding all_messages_tags by (cases t) simp_all

lemma reverse_lookup_exact:
  "(t, mp) \<in> set table \<Longrightarrow> msg_pattern mp \<noteq> ''?'' \<Longrightarrow>
   \<forall>e \<in> set table. snd e = mp \<longrightarrow> fst e = t \<Longrightarrow>
   tag_reverse_lookup_table table (msg_text mp) (msg_pattern mp) = t"
proof (induction table)
  case Nil
  then show ?case by simp
next
  case (Cons e table)
  show ?case
  proof (cases "msg_text (snd e) = msg_text mp \<and> msg_pattern (snd e) = msg_pattern mp")
    case True
    then have "snd e = mp" by simp
    with Cons.prems(3) have "fst e = t" by simp
    with True Cons.prems(2) show ?thesis by (simp add: Let_def)
  next
    case False
    then have "e \<noteq> (t, mp)" by auto
    with Cons.prems(1) have "(t, mp) \<in> set table" by simp
    moreover from Cons.prems(3) have "\<forall>e \<in> set table. snd e = mp \<longrightarrow> fst e = t" by simp
    ultimately have "tag_reverse_lookup_table table (msg_text mp) (msg_pattern mp) = t"
      using Cons.IH Cons.prems(2) by blast
    with False Cons.prems(2) show ?thesis by (auto simp add: Let_def)
  qed
qed

lemma wildcard_entry:
  "\<forall>e \<in> set all_messages. msg_pattern (snd e) = ''?'' \<longrightarrow>
     e = (tag_sessionlist, \<lparr>msg_text = ''/nsm/session/list'', msg_pattern = ''?''\<rparr>)"
  by (simp add: all_messages_def NIL_def)

lemma sessionlist_reverse: "tag_reverse_lookup ''/nsm/session/list'' ''?'' = tag_sessionlist"
  by (simp add: tag_reverse_lookup_def all_messages_def NIL_def)

lemma shared_pairs:
  "shares_pair tag_announce" "shares_pair tag_guiannounce"
  "shares_pair tag_generic" "shares_pair tag_null"
  "shares_pair tag_oscreply" "shares_pair tag_stripbynumber"
  by (simp_all add: shares_pair_def all_messages_def)

text \<open>Apart from the second tag of each of the three shared pairs, no two tags
  carry the same pair.\<close>

lemma all_messages_pairs_distinct:
  "distinct (map snd (filter (\<lambda>e. fst e \<notin> {tag_guiannounce, tag_null, tag_stripbynumber})
                        all_messages))"
  by (simp add: all_messages_def NIL_def)

lemma second_tags:
  "map_of all_messages tag_guiannounce = map_of all_messages tag_announce"
  "map_of all_messages tag_null = map_of all_messages tag_generic"
  "map_of all_messages tag_stripbynumber = map_of all_messages tag_oscreply"
  by (simp_all add: all_messages_def)

lemma shares_pair_six:
  assumes "shares_pair t"
  shows "t \<in> {tag_announce, tag_guiannounce, tag_generic, tag_null, tag_oscreply,
              tag_stripbynumber}"
proof (rule ccontr)
  assume six: "t \<notin> {tag_announce, tag_guiannounce, tag_generic, tag_null, tag_oscreply,
                     tag_stripbynumber}"
  let ?second = "{tag_guiannounce, tag_null, tag_stripbynumber}"
  let ?firsts = "filter (\<lambda>e. fst e \<notin> ?second) all_messages"
  from assms obtain u mp where u: "(u, mp) \<in> set all_messages" "u \<noteq> t"
    and t: "map_of all_messages t = Some mp"
    by (auto simp add: shares_pair_def)
  from t have tm: "(t, mp) \<in> set all_messages" by (rule map_of_SomeD)
  with six have t1: "(t, mp) \<in> set ?firsts" by simp
  have same: "x = y" if "(x, mp) \<in> set ?firsts" "(y, mp) \<in> set ?firsts" for x y
  proof -
    from all_messages_pairs_distinct have "inj_on snd (set ?firsts)"
      by (simp only: distinct_map)
    then have "(x, mp) = (y, mp)"
      using _ that by (rule inj_onD) simp
    then show ?thesis by simp
  qed
  from u(1) all_messages_distinct have um: "map_of all_messages u = Some mp" by simp
  obtain w where w: "(w, mp) \<in> set ?firsts"
    "w \<in> {u, tag_announce, tag_generic, tag_oscreply}"
  proof (cases "u \<in> ?second")
    case False
    with u(1) have "(u, mp) \<in> set ?firsts" by simp
    then show ?thesis by (rule that) simp
  next
    case True
    then consider "u = tag_guiannounce" | "u = tag_null" | "u = tag_stripbynumber" by auto
    then show ?thesis
    proof cases
      case 1
      with um second_tags(1) have "map_of all_messages tag_announce = Some mp" by simp
      then have "(tag_announce, mp) \<in> set ?firsts" by (auto dest: map_of_SomeD)
      then show ?thesis by (rule that) simp
    next
      case 2
      with um second_tags(2) have "map_of all_messages tag_generic = Some mp" by simp
      then have "(tag_generic, mp) \<in> set ?firsts" by (auto dest: map_of_SomeD)
      then show ?thesis by (rule that) simp
    next
      case 3
      with um second_tags(3) have "map_of all_messages tag_oscreply = Some mp" by simp
      then have "(tag_oscreply, mp) \<in> set ?firsts" by (auto dest: map_of_SomeD)
      then show ?thesis by (rule that) simp
    qed
  qed
  from same [OF t1 w(1)] have "t = w" .
  with w(2) u(2) six show False by auto
qed

text \<open>
  Claim C2. For every tag of the enumeration other than \<^verbatim>\<open>illegal\<close>, the forward lookup
  in the table of all messages succeeds and gives a path and a pattern; and unless the
  tag is one of the six that share their (path, pattern) pair with another tag
  (\<^verbatim>\<open>announce\<close> and \<^verbatim>\<open>guiannounce\<close>, \<^verbatim>\<open>generic\<close> and \<^verbatim>\<open>null\<close>, \<^verbatim>\<open>oscreply\<close> and
  \<^verbatim>\<open>stripbynumber\<close>), the inverse lookup of that very pair gives the tag back. Those six
  are the tags that share a pair, and no other tag does.
\<close>

theorem registry_totality:
  "t \<noteq> tag_illegal \<Longrightarrow>
     (\<exists>message pattern. tag_lookup t = Some (message, pattern) \<and>
        (t \<notin> {tag_announce, tag_guiannounce, tag_generic, tag_null, tag_oscreply,
               tag_stripbynumber} \<longrightarrow>
           tag_reverse_lookup message pattern = t)) \<and>
     (shares_pair t \<longleftrightarrow>
        t \<in> {tag_announce, tag_guiannounce, tag_generic, tag_null, tag_oscreply,
              tag_stripbynumber})"
proof -
  let ?six = "{tag_announce, tag_guiannounce, tag_generic, tag_null, tag_oscreply,
               tag_stripbynumber}"
  assume "t \<noteq> tag_illegal"
  with all_messages_keys [of t] have "t \<in> set (map fst all_messages)" by simp
  then obtain mp where mem: "(t, mp) \<in> set all_messages" by auto
  with all_messages_distinct have find: "map_of all_messages t = Some mp" by simp
  then have fwd: "tag_lookup t = Some (msg_text mp, msg_pattern mp)"
    by (simp add: tag_lookup_def tag_lookup_table_def)
  have six: "shares_pair t \<longleftrightarrow> t \<in> ?six"
    using shares_pair_six [of t] shared_pairs by auto
  have "tag_reverse_lookup (msg_text mp) (msg_pattern mp) = t" if "t \<notin> ?six"
  proof (cases "msg_pattern mp = ''?''")
    case True
    with mem wildcard_entry [rule_format, of "(t, mp)"]
    have "(t, mp) = (tag_sessionlist, \<lparr>msg_text = ''/nsm/session/list'', msg_pattern = ''?''\<rparr>)"
      by simp
    then show ?thesis using sessionlist_reverse by simp
  next
    case False
    from that six have "\<not> shares_pair t" by simp
    with find have "\<forall>e \<in> set all_messages. snd e = mp \<longrightarrow> fst e = t"
      by (auto simp add: shares_pair_def)
    with mem False show ?thesis
      unfolding tag_reverse_lookup_def by (rule reverse_lookup_exact)
  qed
  with fwd six show ?thesis by blast
qed

text \<open>Claim C2 at the tag \<^verbatim>\<open>cliclean\<close>, which is not one of the six.\<close>

theorem registry_totality_witness:
  "tag_cliclean \<noteq> tag_illegal \<and>
   tag_cliclean \<notin> {tag_announce, tag_guiannounce, tag_generic, tag_null, tag_oscreply,
                    tag_stripbynumber} \<and>
   \<not> shares_pair tag_cliclean \<and>
   tag_lookup tag_cliclean = Some (''/nsm/client/is_clean'', '''') \<and>
   tag_reverse_lookup ''/nsm/client/is_clean'' '''' = tag_cliclean"
proof -
  have a: "tag_cliclean \<noteq> tag_illegal" by simp
  have b: "tag_cliclean \<notin> {tag_announce, tag_guiannounce, tag_generic, tag_null, tag_oscreply,
                    tag_stripbynumber}" by simp
  have c: "tag_lookup tag_cliclean = Some (''/nsm/client/is_clean'', '''')"
    by (simp add: tag_lookup_def tag_lookup_table_def all_messages_def)
  from registry_totality [OF a] b c show ?thesis by simp
qed

text \<open>
  Claim C8, as amended. In the table, \<^verbatim>\<open>announce\<close> and \<^verbatim>\<open>guiannounce\<close> both map to the path
  \<^verbatim>\<open>/nsm/gui/gui_announce\<close> with the same, empty, type signature; the tag with that
  path and a different signature, \<^verbatim>\<open>"s"\<close>, is \<^verbatim>\<open>gui_announce\<close>.
\<close>

theorem announce_guiannounce_same_signature:
  "tag_lookup tag_announce = Some (''/nsm/gui/gui_announce'', '''') \<and>
   tag_lookup tag_guiannounce = Some (''/nsm/gui/gui_announce'', '''') \<and>
   tag_lookup tag_gui_announce = Some (''/nsm/gui/gui_announce'', ''s'')"
  by (simp add: tag_lookup_def tag_lookup_table_def all_messages_def)

text \<open>
  Claim C8 as stated does not hold: \<^verbatim>\<open>announce\<close> and \<^verbatim>\<open>guiannounce\<close> do not map to
  \<^verbatim>\<open>/nsm/gui/gui_announce\<close> with different type signatures.
\<close>

theorem announce_guiannounce_counterexample:
  "\<not> (map_option fst (tag_lookup tag_announce) = Some ''/nsm/gui/gui_announce'' \<and>
      map_option fst (tag_lookup tag_guiannounce) = Some ''/nsm/gui/gui_announce'' \<and>
      map_option snd (tag_lookup tag_announce) \<noteq> map_option snd (tag_lookup tag_guiannounce))"
  by (simp add: tag_lookup_def tag_lookup_table_def all_messages_def)

section \<open>Properties of the endpoint\<close>

subsection \<open>The paths of the signal messages\<close>

lemma tag_message_sighello: "tag_message tag_sighello = ''/signal/hello''"
  by (simp add: tag_message_def all_messages_def)

lemma tag_message_siglist: "tag_message tag_siglist = ''/signal/list''"
  by (simp add: tag_message_def all_messages_def)

lemma tag_message_sigconnect: "tag_message tag_sigconnect = ''/signal/connect''"
  by (simp add: tag_message_def all_messages_def)

lemma tag_message_sigdisconnect: "tag_message tag_sigdisconnect = ''/signal/disconnect''"
  by (simp add: tag_message_def all_messages_def)

lemma tag_message_sigremoved: "tag_message tag_sigremoved = ''/signal/removed''"
  by (simp add: tag_message_def all_messages_def)

lemma tag_message_sigrenamed: "tag_message tag_sigrenamed = ''/signal/renamed''"
  by (simp add: tag_message_def all_messages_def)

lemma tag_message_sigcreated: "tag_message tag_sigcreated = ''/signal/created''"
  by (simp add: tag_message_def all_messages_def)

lemmas tag_message_simps =
  tag_message_sigcreated
  tag_message_sighello tag_message_siglist tag_message_sigconnect
  tag_message_sigdisconnect tag_message_sigremoved tag_message_sigrenamed

text \<open>The paths and typespecs of the methods of the endpoint.\<close>

lemma tag_lookup_signals:
  "tag_lookup tag_sighello = Some (''/signal/hello'', ''ss'')"
  "tag_lookup tag_sigconnect = Some (''/signal/connect'', ''ss'')"
  "tag_lookup tag_sigdisconnect = Some (''/signal/disconnect'', ''ss'')"
  "tag_lookup tag_sigrenamed = Some (''/signal/renamed'', ''ss'')"
  "tag_lookup tag_sigremoved = Some (''/signal/removed'', ''s'')"
  "tag_lookup tag_sigcreated = Some (''/signal/created'', ''ssfff'')"
  "tag_lookup tag_siglist = Some (''/signal/list'', NIL)"
  "tag_lookup tag_sigreply = Some (''/reply'', NIL)"
  "tag_lookup tag_generic = Some (NIL, NIL)"
  by (simp_all add: tag_lookup_def tag_lookup_table_def all_messages_def)

subsection \<open>Sending to every peer\<close>

lemma foldl_lo_send_from:
  "foldl (\<lambda>e x. lo_send_from e (a x) (b x) (c x) (d x)) ep xs =
     ep\<lparr>sent := sent ep @ map (\<lambda>x. Send (a x) (b x) (c x) (d x)) xs\<rparr>"
proof (induction xs arbitrary: ep)
  case Nil
  show ?case by simp
next
  case (Cons x xs)
  have "foldl (\<lambda>e x. lo_send_from e (a x) (b x) (c x) (d x)) ep (x # xs) =
      (lo_send_from ep (a x) (b x) (c x) (d x))
        \<lparr>sent := sent (lo_send_from ep (a x) (b x) (c x) (d x)) @
                   map (\<lambda>x. Send (a x) (b x) (c x) (d x)) xs\<rparr>"
    by (simp add: Cons.IH)
  then show ?case by (simp add: lo_send_from_def)
qed

lemma first_index_Some:
  "first_index P xs = Some i \<Longrightarrow> i < length xs \<and> P (xs ! i) \<and> (\<forall>j < i. \<not> P (xs ! j))"
proof (induction xs arbitrary: i)
  case Nil
  then show ?case by simp
next
  case (Cons x xs)
  show ?case
  proof (cases "P x")
    case True
    with Cons.prems show ?thesis by simp
  next
    case False
    with Cons.prems obtain k where k: "first_index P xs = Some k" "i = Suc k" by auto
    from Cons.IH [OF k(1)] False k(2) show ?thesis
      by (auto simp add: less_Suc_eq_0_disj)
  qed
qed

lemma first_index_first:
  "i < length xs \<Longrightarrow> P (xs ! i) \<Longrightarrow> \<forall>j < i. \<not> P (xs ! j) \<Longrightarrow> first_index P xs = Some i"
proof (induction xs arbitrary: i)
  case Nil
  then show ?case by simp
next
  case (Cons x xs)
  show ?case
  proof (cases i)
    case 0
    with Cons.prems show ?thesis by simp
  next
    case (Suc k)
    with Cons.prems have "\<not> P x" by auto
    moreover from Suc Cons.prems have "first_index P xs = Some k"
      by (intro Cons.IH) auto
    ultimately show ?thesis using Suc by simp
  qed
qed

lemma first_index_None: "first_index P xs = None \<longleftrightarrow> (\<forall>x \<in> set xs. \<not> P x)"
  by (induction xs) auto


subsection \<open>The example states\<close>

lemma ep_unnamed_eq:
  "ep_unnamed =
     \<lparr>m_server =
        [\<lparr>lm_path = Some ''/signal/hello'', lm_typespec = Some ''ss'',
          lm_handler = Endpoint_handler tag_sighello True\<rparr>,
         \<lparr>lm_path = Some ''/signal/connect'', lm_typespec = Some ''ss'',
          lm_handler = Endpoint_handler tag_sigconnect True\<rparr>,
         \<lparr>lm_path = Some ''/signal/disconnect'', lm_typespec = Some ''ss'',
          lm_handler = Endpoint_handler tag_sigdisconnect True\<rparr>,
         \<lparr>lm_path = Some ''/signal/renamed'', lm_typespec = Some ''ss'',
          lm_handler = Endpoint_handler tag_sigrenamed True\<rparr>,
         \<lparr>lm_path = Some ''/signal/removed'', lm_typespec = Some ''s'',
          lm_handler = Endpoint_handler tag_sigremoved True\<rparr>,
         \<lparr>lm_path = Some ''/signal/created'', lm_typespec = Some ''ssfff'',
          lm_handler = Endpoint_handler tag_sigcreated True\<rparr>,
         \<lparr>lm_path = Some ''/signal/list'', lm_typespec = None,
          lm_handler = Endpoint_handler tag_siglist True\<rparr>,
         \<lparr>lm_path = Some ''/reply'', lm_typespec = None,
          lm_handler = Endpoint_handler tag_sigreply True\<rparr>,
         \<lparr>lm_path = None, lm_typespec = None,
          lm_handler = Endpoint_handler tag_generic True\<rparr>],
      m_server_url = ''osc.udp://localhost:8000/'',
      m_address = \<lparr>a_host = ''localhost'', a_port = ''8000''\<rparr>,
      m_peers = [], m_signals = [], m_methods = [], m_learning_path = [],
      m_translations = [], m_name = [],
      m_peer_scan_complete_callback = False, m_peer_signal_callback = False,
      objects = Map.empty, next_object = 0, sent = [], invoked = []\<rparr>"
  by (simp add: ep_unnamed_def init_def add_methods_def add_osc_method_def tag_lookup_signals
        lo_server_add_method_def endpoint_new_def lo_address_of_url_def osc_message_ptr_def
        NIL_def Let_def)

lemmas example_defs =
  ep_started_def ep_unnamed_eq lo_address_of_url_def ep_peer_A_def ep_two_routes_def
  ep_two_peers_def ep_scanning_def created_x_def list_done_def ctl_half_def

lemmas hello_defs =
  handle_hello_def find_peer_by_name_def address_matches_def scan_peer_def add_peer_def
  hello_def send_empty_def send_ss_def lo_send_from_def osc_message_ptr_def NIL_def

lemma ep_peer_A_eq:
  "ep_peer_A = ep_started
     \<lparr>m_peers := [\<lparr>p_scanning = True, p_name = ''P'',
                   p_addr = \<lparr>a_host = ''hostA'', a_port = ''9000''\<rparr>, p_signals = []\<rparr>],
      sent := [Send \<lparr>a_host = ''hostA'', a_port = ''9000''\<rparr> (Some ''/signal/list'') [] [],
               Send \<lparr>a_host = ''hostA'', a_port = ''9000''\<rparr> (Some ''/signal/hello'') ''ss''
                 [OscS ''/app'', OscS ''osc.udp://localhost:8000/'']]\<rparr>"
  by (simp add: example_defs hello_defs tag_message_simps Let_def)

lemmas signal_defs =
  with_vol_signal_def vol_signal_def add_translation_def new_signal_def lo_server_add_method_def
  set_parameter_limits_def signal_new_def translation_destination_new_def

lemma ep_two_peers_peers:
  "m_peers ep_two_peers =
     [\<lparr>p_scanning = True, p_name = ''P'',
       p_addr = \<lparr>a_host = ''hostA'', a_port = ''9000''\<rparr>, p_signals = []\<rparr>,
      \<lparr>p_scanning = True, p_name = ''Q'',
       p_addr = \<lparr>a_host = ''hostB'', a_port = ''9001''\<rparr>, p_signals = []\<rparr>]"
  by (simp add: ep_two_peers_def ep_peer_A_eq)
     (simp add: example_defs hello_defs signal_defs tag_message_simps Let_def)

lemma ep_two_peers_object:
  "objects ep_two_peers 0 =
     Some \<lparr>m_endpoint = True, m_peer = None, m_path = ''/app/vol'', m_documentation = [],
           m_value = 0, m_direction = signal_output, m_handler = None, m_user_data = None,
           m_parameter_limits = \<lparr>pl_min = 0, pl_max = 0x3F800000, pl_default_value = 0\<rparr>\<rparr>"
  by (simp add: ep_two_peers_def ep_peer_A_eq)
     (simp add: example_defs hello_defs signal_defs tag_message_simps Let_def)

lemma ep_two_peers_translations:
  "m_translations ep_two_peers =
     [(''/ctl/a'', \<lparr>m_path_td = ''/app/vol'', m_current_value = 0xBF800000,
                    m_suppress_feedback = False\<rparr>)]"
  by (simp add: ep_two_peers_def ep_peer_A_eq)
     (simp add: example_defs hello_defs signal_defs tag_message_simps Let_def)

lemma ep_two_peers_signals: "m_signals ep_two_peers = [0]"
  by (simp add: ep_two_peers_def ep_peer_A_eq)
     (simp add: example_defs hello_defs signal_defs tag_message_simps Let_def)

lemma ep_two_peers_rest:
  "m_learning_path ep_two_peers = []"
  "m_address ep_two_peers = \<lparr>a_host = ''localhost'', a_port = ''8000''\<rparr>"
  "\<not> m_peer_scan_complete_callback ep_two_peers"
  by (simp_all add: ep_two_peers_def ep_peer_A_eq)
     (simp_all add: example_defs hello_defs signal_defs tag_message_simps Let_def)

lemma ep_two_routes_object:
  "objects ep_two_routes 0 =
     Some \<lparr>m_endpoint = True, m_peer = None, m_path = ''/app/vol'', m_documentation = [],
           m_value = 0, m_direction = signal_input, m_handler = None, m_user_data = None,
           m_parameter_limits = \<lparr>pl_min = 0, pl_max = 0x3F800000, pl_default_value = 0\<rparr>\<rparr>"
  by (simp add: example_defs signal_defs Let_def)

lemma ep_two_routes_translations:
  "m_translations ep_two_routes =
     [(''/ctl/a'', \<lparr>m_path_td = ''/app/vol'', m_current_value = 0xBF800000,
                    m_suppress_feedback = False\<rparr>),
      (''/ctl/b'', \<lparr>m_path_td = ''/app/vol'', m_current_value = 0xBF800000,
                    m_suppress_feedback = False\<rparr>)]"
  by (simp add: example_defs signal_defs Let_def)

lemma ep_two_routes_rest:
  "m_peers ep_two_routes = []" "m_name ep_two_routes = ''/app''"
  by (simp_all add: example_defs signal_defs Let_def)

subsection \<open>Peer discovery\<close>

lemma first_index_append_new:
  "first_index P xs = None \<Longrightarrow> P x \<Longrightarrow> first_index P (xs @ [x]) = Some (length xs)"
  by (induction xs) (auto split: if_splits)

lemma hello_sent_only [simp]:
  "m_peers (hello nf ep url) = m_peers ep" "m_name (hello nf ep url) = m_name ep"
  by (simp_all add: hello_def send_ss_def lo_send_from_def Let_def)

lemma handle_hello_unknown:
  assumes "find_peer_by_name ep n = None"
  shows "m_peers (handle_hello nf ep n url) =
           m_peers ep @ [\<lparr>p_scanning = True, p_name = n, p_addr = nf url, p_signals = []\<rparr>]"
  using assms
  by (simp add: handle_hello_def scan_peer_def add_peer_def send_empty_def lo_send_from_def Let_def)

lemma handle_hello_same_port:
  assumes "find_peer_by_name ep n = Some i"
    and "a_port (nf url) = a_port (p_addr (m_peers ep ! i))"
  shows "handle_hello nf ep n url = ep"
  using assms by (simp add: handle_hello_def address_matches_def Let_def)

lemma handle_hello_other_port:
  assumes "find_peer_by_name ep n = Some i"
    and "a_port (nf url) \<noteq> a_port (p_addr (m_peers ep ! i))"
  shows "m_peers (handle_hello nf ep n url) =
           (m_peers ep)[i := (m_peers ep ! i)\<lparr>p_addr := nf url, p_scanning := True\<rparr>]"
    and "Send (nf url) (Some ''/signal/list'') [] [] \<in> set (sent (handle_hello nf ep n url))"
  using assms
  by (simp_all add: handle_hello_def address_matches_def send_empty_def lo_send_from_def
        hello_def send_ss_def tag_message_siglist osc_message_ptr_def NIL_def Let_def)

text \<open>
  Claim C5, as amended. A hello is matched against the known peers by name, and its
  address against the stored one by \<open>address_matches\<close>, which compares the ports.
  For a name that is not known, the hello appends one peer, scanning, at the address of
  the URL; the same hello once more changes nothing, so exactly one peer has that name.
  For a known name and a URL whose port differs from the stored address's, the address
  of that peer entry is replaced and the entry scanned again (a list request goes to the
  new address), and no entry is added or renamed. For a known name and a URL with the
  port of the stored address, nothing changes.
\<close>

theorem hello_idempotent:
  "(find_peer_by_name ep n = None \<longrightarrow>
      m_peers (handle_hello nf ep n url) =
        m_peers ep @ [\<lparr>p_scanning = True, p_name = n, p_addr = nf url, p_signals = []\<rparr>] \<and>
      handle_hello nf (handle_hello nf ep n url) n url = handle_hello nf ep n url \<and>
      length (filter (\<lambda>p. p_name p = n) (m_peers (handle_hello nf (handle_hello nf ep n url) n url))) = 1) \<and>
   (\<forall>i. find_peer_by_name ep n = Some i \<longrightarrow>
      (a_port (nf url) \<noteq> a_port (p_addr (m_peers ep ! i)) \<longrightarrow>
         m_peers (handle_hello nf ep n url) =
           (m_peers ep)[i := (m_peers ep ! i)\<lparr>p_addr := nf url, p_scanning := True\<rparr>] \<and>
         length (m_peers (handle_hello nf ep n url)) = length (m_peers ep) \<and>
         map p_name (m_peers (handle_hello nf ep n url)) = map p_name (m_peers ep) \<and>
         Send (nf url) (Some ''/signal/list'') [] [] \<in> set (sent (handle_hello nf ep n url))) \<and>
      (a_port (nf url) = a_port (p_addr (m_peers ep ! i)) \<longrightarrow>
         handle_hello nf ep n url = ep))"
proof (intro conjI impI allI)
  assume unknown: "find_peer_by_name ep n = None"
  let ?new = "\<lparr>p_scanning = True, p_name = n, p_addr = nf url, p_signals = []\<rparr>"
  let ?ep1 = "handle_hello nf ep n url"
  show peers: "m_peers ?ep1 = m_peers ep @ [?new]"
    using unknown by (rule handle_hello_unknown)
  from unknown have none: "\<forall>p \<in> set (m_peers ep). n \<noteq> p_name p"
    by (simp add: find_peer_by_name_def first_index_None)
  from unknown have found: "find_peer_by_name ?ep1 n = Some (length (m_peers ep))"
    unfolding find_peer_by_name_def peers
    by (intro first_index_append_new) simp_all
  have "a_port (nf url) = a_port (p_addr (m_peers ?ep1 ! length (m_peers ep)))"
    by (simp add: peers)
  with found show again: "handle_hello nf ?ep1 n url = ?ep1"
    by (rule handle_hello_same_port)
  from none have "filter (\<lambda>p. p_name p = n) (m_peers ep) = []"
    by (auto simp add: filter_empty_conv)
  then show "length (filter (\<lambda>p. p_name p = n) (m_peers (handle_hello nf ?ep1 n url))) = 1"
    by (simp add: again peers)
next
  fix i
  assume known: "find_peer_by_name ep n = Some i"
    and port: "a_port (nf url) \<noteq> a_port (p_addr (m_peers ep ! i))"
  from known have i: "i < length (m_peers ep)" "p_name (m_peers ep ! i) = n"
    unfolding find_peer_by_name_def by (auto dest: first_index_Some)
  show upd: "m_peers (handle_hello nf ep n url) =
      (m_peers ep)[i := (m_peers ep ! i)\<lparr>p_addr := nf url, p_scanning := True\<rparr>]"
    using known port by (rule handle_hello_other_port)
  show "length (m_peers (handle_hello nf ep n url)) = length (m_peers ep)"
    by (simp add: upd)
  show "map p_name (m_peers (handle_hello nf ep n url)) = map p_name (m_peers ep)"
    using i by (simp add: upd map_update list_update_same_conv)
  show "Send (nf url) (Some ''/signal/list'') [] [] \<in> set (sent (handle_hello nf ep n url))"
    using known port by (rule handle_hello_other_port)
next
  fix i
  assume "find_peer_by_name ep n = Some i"
    and "a_port (nf url) = a_port (p_addr (m_peers ep ! i))"
  then show "handle_hello nf ep n url = ep"
    by (rule handle_hello_same_port)
qed

text \<open>
  Claim C5 as stated does not hold for a URL that differs from the stored address in
  the host only: after the hello of \<^verbatim>\<open>P\<close> from \<^verbatim>\<open>osc.udp://hostA:9000/\<close>, a hello of
  \<^verbatim>\<open>P\<close> from \<^verbatim>\<open>osc.udp://hostB:9000/\<close> leaves the endpoint as it was, the stored address
  being that of \<^verbatim>\<open>hostA\<close>.
\<close>

theorem hello_same_port_counterexample:
  "handle_hello lo_address_of_url ep_peer_A ''P'' ''osc.udp://hostB:9000/'' = ep_peer_A \<and>
   map p_addr (m_peers ep_peer_A) = [lo_address_of_url ''osc.udp://hostA:9000/''] \<and>
   lo_address_of_url ''osc.udp://hostB:9000/'' \<noteq> lo_address_of_url ''osc.udp://hostA:9000/''"
  by (simp add: ep_peer_A_eq) (simp add: example_defs hello_defs Let_def)

text \<open>Claim C5, as amended, at the three cases: an unknown name, a known name with
  another port, a known name with the same port and another host.\<close>

theorem hello_idempotent_witness:
  "find_peer_by_name ep_started ''P'' = None \<and>
   m_peers (handle_hello lo_address_of_url
              (handle_hello lo_address_of_url ep_started ''P'' ''osc.udp://hostA:9000/'')
              ''P'' ''osc.udp://hostA:9000/'') =
     [\<lparr>p_scanning = True, p_name = ''P'',
       p_addr = \<lparr>a_host = ''hostA'', a_port = ''9000''\<rparr>, p_signals = []\<rparr>] \<and>
   find_peer_by_name ep_peer_A ''P'' = Some 0 \<and>
   a_port (lo_address_of_url ''osc.udp://hostB:9001/'') \<noteq> a_port (p_addr (m_peers ep_peer_A ! 0)) \<and>
   map p_addr (m_peers (handle_hello lo_address_of_url ep_peer_A ''P'' ''osc.udp://hostB:9001/'')) =
     [\<lparr>a_host = ''hostB'', a_port = ''9001''\<rparr>] \<and>
   a_port (lo_address_of_url ''osc.udp://hostB:9000/'') = a_port (p_addr (m_peers ep_peer_A ! 0)) \<and>
   handle_hello lo_address_of_url ep_peer_A ''P'' ''osc.udp://hostB:9000/'' = ep_peer_A"
proof -
  have none: "find_peer_by_name ep_started ''P'' = None"
    by (simp add: example_defs find_peer_by_name_def)
  have some: "find_peer_by_name ep_peer_A ''P'' = Some 0"
    by (simp add: ep_peer_A_eq find_peer_by_name_def)
  have other: "a_port (lo_address_of_url ''osc.udp://hostB:9001/'') \<noteq> a_port (p_addr (m_peers ep_peer_A ! 0))"
    by (simp add: ep_peer_A_eq lo_address_of_url_def)
  have same: "a_port (lo_address_of_url ''osc.udp://hostB:9000/'') = a_port (p_addr (m_peers ep_peer_A ! 0))"
    by (simp add: ep_peer_A_eq lo_address_of_url_def)
  note first = hello_idempotent [of ep_started "''P''" lo_address_of_url "''osc.udp://hostA:9000/''"]
  note second = hello_idempotent [of ep_peer_A "''P''" lo_address_of_url "''osc.udp://hostB:9001/''"]
  note third = hello_idempotent [of ep_peer_A "''P''" lo_address_of_url "''osc.udp://hostB:9000/''"]
  from first none have a: "m_peers (handle_hello lo_address_of_url
              (handle_hello lo_address_of_url ep_started ''P'' ''osc.udp://hostA:9000/'')
              ''P'' ''osc.udp://hostA:9000/'') =
     [\<lparr>p_scanning = True, p_name = ''P'',
       p_addr = \<lparr>a_host = ''hostA'', a_port = ''9000''\<rparr>, p_signals = []\<rparr>]"
    by (simp add: example_defs)
  from second some other have b:
    "map p_addr (m_peers (handle_hello lo_address_of_url ep_peer_A ''P'' ''osc.udp://hostB:9001/'')) =
       [\<lparr>a_host = ''hostB'', a_port = ''9001''\<rparr>]"
    by (simp add: ep_peer_A_eq lo_address_of_url_def)
  from third some same have c:
    "handle_hello lo_address_of_url ep_peer_A ''P'' ''osc.udp://hostB:9000/'' = ep_peer_A"
    by blast
  from none some other same a b c show ?thesis by blast
qed

subsection \<open>Replies and remote signals\<close>

text \<open>
  Claim C10 says that \<^verbatim>\<open>osc_reply\<close> reads \<^verbatim>\<open>argv[0]\<close> only when \<^verbatim>\<open>argc\<close> is at least 1.
  The code reads it before it tests \<^verbatim>\<open>argc\<close>: on a \<^verbatim>\<open>/reply\<close> with no arguments and an
  endpoint as user data, the call ends in the read of \<^verbatim>\<open>argv[0]\<close>.
\<close>

theorem osc_reply_no_arguments:
  "osc_reply (Some ep) path types [] msg = Inl Bad_argv_read"
  by (simp add: osc_reply_def argv_at_def)

text \<open>
  Claim C7, as amended. The endpoint attributes a message to the first known peer whose
  address has the port of the source of the message, whatever the host. Let \<open>P\<close>, at
  position \<open>i\<close>, be that peer for a \<^verbatim>\<open>/reply\<close> with the one argument \<^verbatim>\<open>/signal/list\<close>:
  \<open>P\<close> has the port of the source and no peer before \<open>P\<close> has it; let \<open>P\<close> be scanning and
  hold \<open>N\<close> signals. Then the message is handled, \<open>P\<close> is no longer scanning, the
  scan-complete callback is invoked once and no other callback is (nothing is invoked
  when no callback is set), and \<open>P\<close> holds the same \<open>N\<close> signals.
\<close>

theorem scan_terminator:
  assumes known: "i < length (m_peers ep)"
    and port: "a_port (p_addr (m_peers ep ! i)) = a_port (msg_source msg)"
    and first: "\<forall>j < i. a_port (p_addr (m_peers ep ! j)) \<noteq> a_port (msg_source msg)"
    and scanning: "p_scanning (m_peers ep ! i)"
    and count: "length (p_signals (m_peers ep ! i)) = N"
    and cmd: "arg_s a0 = ''/signal/list''"
  shows "\<exists>ep'. osc_reply (Some ep) path types [a0] msg = Inr (osc_msg_handled, Some ep') \<and>
           \<not> p_scanning (m_peers ep' ! i) \<and>
           length (p_signals (m_peers ep' ! i)) = N \<and>
           p_signals (m_peers ep' ! i) = p_signals (m_peers ep ! i) \<and>
           invoked ep' =
             invoked ep @ (if m_peer_scan_complete_callback ep then [Peer_scan_complete] else [])"
proof -
  from known port first have "find_peer_by_address ep (msg_source msg) = Some i"
    unfolding find_peer_by_address_def Let_def by (intro first_index_first) simp_all
  with known cmd count show ?thesis
    by (simp add: osc_reply_def argv_at_def tag_message_siglist Let_def)
qed

text \<open>Claim C7, as amended, at a peer with three signals, the only peer; and at the
  second of two peers with different ports, the terminator coming from its port.\<close>

theorem scan_terminator_witness:
  "0 < length (m_peers ep_scanning) \<and>
   a_port (p_addr (m_peers ep_scanning ! 0)) = a_port (msg_source list_done) \<and>
   p_scanning (m_peers ep_scanning ! 0) \<and>
   length (p_signals (m_peers ep_scanning ! 0)) = 3 \<and>
   (\<exists>ep'. osc_reply (Some ep_scanning) ''/reply'' ''s''
             [\<lparr>arg_s = ''/signal/list'', arg_f = 0\<rparr>] list_done =
             Inr (osc_msg_handled, Some ep') \<and>
          \<not> p_scanning (m_peers ep' ! 0) \<and>
          length (p_signals (m_peers ep' ! 0)) = 3 \<and>
          invoked ep' = [Peer_scan_complete]) \<and>
   1 < length (m_peers ep_two_peers) \<and>
   a_port (p_addr (m_peers ep_two_peers ! 1)) = ''9001'' \<and>
   a_port (p_addr (m_peers ep_two_peers ! 0)) \<noteq> ''9001'' \<and>
   p_scanning (m_peers ep_two_peers ! 1) \<and>
   (\<exists>ep'. osc_reply (Some ep_two_peers) ''/reply'' ''s''
             [\<lparr>arg_s = ''/signal/list'', arg_f = 0\<rparr>]
             (list_done\<lparr>msg_source := \<lparr>a_host = ''hostB'', a_port = ''9001''\<rparr>\<rparr>) =
             Inr (osc_msg_handled, Some ep') \<and>
          \<not> p_scanning (m_peers ep' ! 1) \<and>
          length (p_signals (m_peers ep' ! 1)) = 0 \<and>
          invoked ep' = invoked ep_two_peers)"
proof -
  let ?a0 = "\<lparr>arg_s = ''/signal/list'', arg_f = 0\<rparr>"
  let ?msg = "list_done\<lparr>msg_source := \<lparr>a_host = ''hostB'', a_port = ''9001''\<rparr>\<rparr>"
  have a: "0 < length (m_peers ep_scanning)"
    by (simp add: example_defs)
  have b: "a_port (p_addr (m_peers ep_scanning ! 0)) = a_port (msg_source list_done)"
    by (simp add: example_defs)
  have c: "\<forall>j < 0. a_port (p_addr (m_peers ep_scanning ! j)) \<noteq> a_port (msg_source list_done)"
    by simp
  have d: "p_scanning (m_peers ep_scanning ! 0)"
    by (simp add: example_defs)
  have e: "length (p_signals (m_peers ep_scanning ! 0)) = 3"
    by (simp add: example_defs)
  have f: "arg_s ?a0 = ''/signal/list''"
    by simp
  have g: "invoked ep_scanning = []" "m_peer_scan_complete_callback ep_scanning"
    by (simp_all add: example_defs)
  have a': "1 < length (m_peers ep_two_peers)"
    by (simp add: ep_two_peers_peers)
  have b': "a_port (p_addr (m_peers ep_two_peers ! 1)) = a_port (msg_source ?msg)"
    by (simp add: ep_two_peers_peers)
  have c': "\<forall>j < 1. a_port (p_addr (m_peers ep_two_peers ! j)) \<noteq> a_port (msg_source ?msg)"
    by (simp add: ep_two_peers_peers)
  have d': "p_scanning (m_peers ep_two_peers ! 1)"
    by (simp add: ep_two_peers_peers)
  have e': "length (p_signals (m_peers ep_two_peers ! 1)) = 0"
    by (simp add: ep_two_peers_peers)
  have g': "\<not> m_peer_scan_complete_callback ep_two_peers"
    by (simp add: ep_two_peers_def ep_peer_A_eq)
       (simp add: example_defs hello_defs signal_defs tag_message_simps Let_def)
  have h': "a_port (p_addr (m_peers ep_two_peers ! 1)) = ''9001''"
    "a_port (p_addr (m_peers ep_two_peers ! 0)) \<noteq> ''9001''"
    by (simp_all add: ep_two_peers_peers)
  from scan_terminator [OF a b c d e f, where path = "''/reply''" and types = "''s''"] g
  have one: "\<exists>ep'. osc_reply (Some ep_scanning) ''/reply'' ''s'' [?a0] list_done =
             Inr (osc_msg_handled, Some ep') \<and>
          \<not> p_scanning (m_peers ep' ! 0) \<and>
          length (p_signals (m_peers ep' ! 0)) = 3 \<and>
          invoked ep' = [Peer_scan_complete]"
    by auto
  from scan_terminator [OF a' b' c' d' e' f, where path = "''/reply''" and types = "''s''"] g'
  have two: "\<exists>ep'. osc_reply (Some ep_two_peers) ''/reply'' ''s'' [?a0] ?msg =
             Inr (osc_msg_handled, Some ep') \<and>
          \<not> p_scanning (m_peers ep' ! 1) \<and>
          length (p_signals (m_peers ep' ! 1)) = 0 \<and>
          invoked ep' = invoked ep_two_peers"
    by auto
  from a b d e one a' h' d' two show ?thesis by blast
qed

lemma ep_same_port_peers:
  "m_peers ep_same_port =
     [\<lparr>p_scanning = True, p_name = ''P'',
       p_addr = \<lparr>a_host = ''hostA'', a_port = ''9000''\<rparr>, p_signals = []\<rparr>,
      \<lparr>p_scanning = True, p_name = ''Q'',
       p_addr = \<lparr>a_host = ''hostB'', a_port = ''9000''\<rparr>, p_signals = []\<rparr>]"
  by (simp add: ep_same_port_def ep_peer_A_eq)
     (simp add: example_defs hello_defs tag_message_simps Let_def)

text \<open>
  Claim C7 as stated does not hold for a peer that shares its port with a peer known
  before it. After the hellos of \<^verbatim>\<open>P\<close> from \<^verbatim>\<open>osc.udp://hostA:9000/\<close> and of \<^verbatim>\<open>Q\<close> from
  \<^verbatim>\<open>osc.udp://hostB:9000/\<close> both peers are scanning; the terminator that arrives from the
  address of \<^verbatim>\<open>Q\<close> clears the flag of \<^verbatim>\<open>P\<close>, and \<^verbatim>\<open>Q\<close> is scanning as before.
\<close>

theorem scan_terminator_same_port_counterexample:
  "m_peers ep_same_port =
     [\<lparr>p_scanning = True, p_name = ''P'',
       p_addr = \<lparr>a_host = ''hostA'', a_port = ''9000''\<rparr>, p_signals = []\<rparr>,
      \<lparr>p_scanning = True, p_name = ''Q'',
       p_addr = \<lparr>a_host = ''hostB'', a_port = ''9000''\<rparr>, p_signals = []\<rparr>] \<and>
   msg_source list_done_Q = p_addr (m_peers ep_same_port ! 1) \<and>
   msg_argv list_done_Q = [\<lparr>arg_s = ''/signal/list'', arg_f = 0\<rparr>] \<and>
   osc_reply (Some ep_same_port) ''/reply'' ''s'' (msg_argv list_done_Q) list_done_Q =
     Inr (osc_msg_handled,
          Some (ep_same_port
            \<lparr>m_peers :=
               [\<lparr>p_scanning = False, p_name = ''P'',
                 p_addr = \<lparr>a_host = ''hostA'', a_port = ''9000''\<rparr>, p_signals = []\<rparr>,
                \<lparr>p_scanning = True, p_name = ''Q'',
                 p_addr = \<lparr>a_host = ''hostB'', a_port = ''9000''\<rparr>, p_signals = []\<rparr>]\<rparr>))"
  by (simp add: ep_same_port_peers list_done_Q_def osc_reply_def argv_at_def tag_message_siglist
        find_peer_by_address_def Let_def)
     (simp add: ep_same_port_def ep_peer_A_eq example_defs hello_defs tag_message_simps Let_def)

text \<open>A listing reply (six arguments) for a path the peer already has changes nothing.\<close>

lemma scan_reply_duplicate:
  assumes "find_peer_by_address ep (msg_source msg) = Some i"
    and "length argv = 6"
    and "arg_s (argv ! 0) = ''/signal/list''"
    and "find_peer_signal_by_path ep (m_peers ep ! i) (arg_s (argv ! 1)) = Some s"
  shows "osc_reply (Some ep) path types argv msg = Inr (osc_msg_handled, Some ep)"
  using assms
  by (cases argv) (simp_all add: osc_reply_def argv_at_def tag_message_siglist Let_def)

lemmas created_defs =
  osc_sig_created_def find_peer_by_address_def add_peer_signal_def new_signal_def
  peer_signal_callback_def direction_of_def set_parameter_limits_def signal_new_def

text \<open>
  Claim C4 says that remote discovery never leaves two signals with the same path in
  the signal set of a peer. The handler of \<^verbatim>\<open>/signal/created\<close> does not look for the
  path: when the peer \<^verbatim>\<open>P\<close> announces \<^verbatim>\<open>/x\<close> twice, its signal set holds two signals,
  at the addresses 0 and 1, both with the path \<^verbatim>\<open>/x\<close>.
\<close>

theorem sig_created_duplicates:
  "\<exists>ep1 ep2.
     osc_sig_created (Some ep_peer_A) ''/signal/created'' ''ssfff'' (msg_argv created_x) created_x =
       Inr (osc_msg_handled, Some ep1) \<and>
     osc_sig_created (Some ep1) ''/signal/created'' ''ssfff'' (msg_argv created_x) created_x =
       Inr (osc_msg_handled, Some ep2) \<and>
     p_signals (m_peers ep2 ! 0) = [0, 1] \<and>
     map_option m_path (objects ep2 0) = Some ''/x'' \<and>
     map_option m_path (objects ep2 1) = Some ''/x''"
  by (simp add: ep_peer_A_eq)
     (simp add: example_defs created_defs Let_def)

subsection \<open>Local signals\<close>

lemma connect_fold:
  "foldl (\<lambda>e mp. send_ss e (p_addr mp) path v1 v2) ep peers =
     ep\<lparr>sent := sent ep @
            map (\<lambda>mp. Send (p_addr mp) (osc_message_ptr path) ''ss'' [OscS v1, OscS v2]) peers\<rparr>"
  unfolding send_ss_def by (rule foldl_lo_send_from)

text \<open>
  Claim C6. For a signal \<open>s\<close> of direction output, \<open>connect_signal\<close> sends
  \<^verbatim>\<open>/signal/connect\<close> with the arguments (path of \<open>s\<close>, remote path) to every known peer,
  in the order of the peers, and \<open>disconnect_signal\<close> does the same with
  \<^verbatim>\<open>/signal/disconnect\<close>; both return true. For a signal of another direction neither
  sends anything, and \<open>disconnect_signal\<close> returns false (\<open>connect_signal\<close> returns
  true).
\<close>

theorem connect_disconnect_signal:
  assumes "objects ep s = Some sg"
  shows "(m_direction sg = signal_output \<longrightarrow>
            connect_signal ep s remote_path =
              Inr (True, ep\<lparr>sent := sent ep @
                map (\<lambda>mp. Send (p_addr mp) (Some ''/signal/connect'') ''ss''
                             [OscS (m_path sg), OscS remote_path]) (m_peers ep)\<rparr>)) \<and>
         (m_direction sg \<noteq> signal_output \<longrightarrow> connect_signal ep s remote_path = Inr (True, ep)) \<and>
         (m_direction sg = signal_output \<longrightarrow>
            disconnect_signal ep s remote_path =
              Inr (True, ep\<lparr>sent := sent ep @
                map (\<lambda>mp. Send (p_addr mp) (Some ''/signal/disconnect'') ''ss''
                             [OscS (m_path sg), OscS remote_path]) (m_peers ep)\<rparr>)) \<and>
         (m_direction sg \<noteq> signal_output \<longrightarrow> disconnect_signal ep s remote_path = Inr (False, ep))"
  using assms
  by (simp add: connect_signal_def disconnect_signal_def connect_fold tag_message_sigconnect
        tag_message_sigdisconnect osc_message_ptr_def NIL_def)

text \<open>Claim C6 at an output signal with two peers, and at an input signal.\<close>

theorem connect_disconnect_signal_witness:
  "connect_signal ep_two_peers 0 ''/target'' =
     Inr (True, ep_two_peers\<lparr>sent := sent ep_two_peers @
       [Send \<lparr>a_host = ''hostA'', a_port = ''9000''\<rparr> (Some ''/signal/connect'') ''ss''
          [OscS ''/app/vol'', OscS ''/target''],
        Send \<lparr>a_host = ''hostB'', a_port = ''9001''\<rparr> (Some ''/signal/connect'') ''ss''
          [OscS ''/app/vol'', OscS ''/target'']]\<rparr>) \<and>
   disconnect_signal ep_two_routes 0 ''/target'' = Inr (False, ep_two_routes)"
  using connect_disconnect_signal [OF ep_two_peers_object, where remote_path = "''/target''"]
    connect_disconnect_signal [OF ep_two_routes_object, where remote_path = "''/target''"]
  by (simp add: ep_two_peers_peers)

lemma send_removed_peers_Some:
  "send_removed_peers ep peers (Some v) =
     Inr (ep\<lparr>sent := sent ep @
            map (\<lambda>mp. Send (p_addr mp) (Some ''/signal/removed'') ''s'' [OscS v]) peers\<rparr>)"
proof (induction peers arbitrary: ep)
  case Nil
  show ?case by simp
next
  case (Cons mp peers)
  show ?case
    by (simp add: Cons.IH string_of_ptr_def send_s_def lo_send_from_def tag_message_sigremoved
          osc_message_ptr_def NIL_def)
qed

text \<open>
  What \<open>del_signal\<close> does for a signal \<open>s\<close> whose path is not the placeholder \<^verbatim>\<open>"-"\<close>: it
  leaves no method with a null typespec at the path of \<open>s\<close> in the server, sends
  \<^verbatim>\<open>/signal/removed\<close> with that path to every known peer, removes \<open>s\<close> from \<open>m_signals\<close>,
  and leaves the translation map as it was: every translation whose destination is the
  path of \<open>s\<close> is still there.
\<close>

lemma del_signal_effects:
  assumes obj: "objects ep o_ptr = Some sg"
    and path: "m_path sg \<noteq> NIL"
  shows "\<exists>ep'. del_signal pattern_match ep o_ptr = Inr ep' \<and>
           (\<forall>m \<in> set (m_server ep'). \<not> (lm_path m = Some (m_path sg) \<and> lm_typespec m = None)) \<and>
           sent ep' = sent ep @
             map (\<lambda>mp. Send (p_addr mp) (Some ''/signal/removed'') ''s'' [OscS (m_path sg)])
               (m_peers ep) \<and>
           m_signals ep' = removeAll o_ptr (m_signals ep) \<and>
           o_ptr \<notin> set (m_signals ep') \<and>
           m_translations ep' = m_translations ep \<and>
           (\<forall>e \<in> set (m_translations ep). m_path_td (snd e) = m_path sg \<longrightarrow>
              e \<in> set (m_translations ep'))"
  using assms
  by (auto simp add: del_signal_def osc_message_ptr_def send_removed_peers_Some
        lo_server_del_method_def del_matches_def)

text \<open>
  Claim C9 says that \<open>del_signal\<close> tells every peer and removes the signal, for every
  signal. For a signal whose path is the placeholder \<^verbatim>\<open>"-"\<close> the code passes the null
  pointer that \<^verbatim>\<open>OPTR\<close> makes of the path where \<^verbatim>\<open>send\<close> expects a \<^verbatim>\<open>std::string\<close>: with one
  peer known, the call ends there, before anything is sent and before the signal is
  removed from \<open>m_signals\<close>.
\<close>

theorem del_signal_placeholder_path:
  "map_option m_path (objects ep_placeholder 0) = Some ''-'' \<and>
   m_signals ep_placeholder = [0] \<and>
   map p_name (m_peers ep_placeholder) = [''P''] \<and>
   del_signal pattern_match ep_placeholder 0 = Inl Null_string"
  by (simp add: ep_placeholder_def placeholder_signal_def del_signal_def string_of_ptr_def
        example_defs hello_defs signal_defs lo_server_del_method_def tag_message_simps Let_def)

text \<open>What \<open>rename\<close> does: the methods with a null typespec at the old path are gone
  (when the new path is another one), the handler is registered at the new path, every
  peer is told, and the loop over the translations has run.\<close>

lemma rename_effects:
  assumes obj: "objects ep o_ptr = Some sg" and owned: "m_endpoint sg"
  shows "\<exists>ep'. rename pattern_match ep o_ptr path = Inr ep' \<and>
           (m_path sg \<noteq> m_name ep @ path \<longrightarrow>
              (\<forall>m \<in> set (m_server ep'). \<not> (lm_path m = Some (m_path sg) \<and> lm_typespec m = None))) \<and>
           \<lparr>lm_path = Some (m_name ep @ path), lm_typespec = None, lm_handler = Osc_sig_handler o_ptr\<rparr>
             \<in> set (m_server ep') \<and>
           sent ep' = sent ep @
             map (\<lambda>p. Send (p_addr p) (Some ''/signal/renamed'') ''ss''
                         [OscS (m_path sg), OscS (m_name ep @ path)]) (m_peers ep) \<and>
           m_translations ep' =
             rename_destination_loop (m_translations ep) (m_path sg) (m_name ep @ path) \<and>
           objects ep' o_ptr = Some (sg\<lparr>m_path := m_name ep @ path\<rparr>)"
  using assms
  by (auto simp add: rename_def Let_def lo_server_del_method_def lo_server_add_method_def
        rename_translation_destination_def connect_fold tag_message_sigrenamed
        osc_message_ptr_def NIL_def del_matches_def)

text \<open>The loop renames every destination when at most one translation points to the
  old path.\<close>

lemma rename_destination_loop_single:
  assumes "length (filter (\<lambda>e. m_path_td (snd e) = a) m) \<le> 1" and "a \<noteq> b"
  shows "\<forall>e \<in> set (rename_destination_loop m a b). m_path_td (snd e) \<noteq> a"
  using assms
proof (induction m)
  case Nil
  show ?case by simp
next
  case (Cons e m)
  obtain k t where e: "e = (k, t)" by (cases e)
  show ?case
  proof (cases "m_path_td t = a")
    case True
    from Cons.prems(1) have "filter (\<lambda>e. m_path_td (snd e) = a) m = []"
      unfolding e using True by simp
    then have none: "\<forall>x \<in> set m. m_path_td (snd x) \<noteq> a"
      by (simp add: filter_empty_conv)
    have step: "rename_destination_loop (e # m) a b = (k, t\<lparr>m_path_td := b\<rparr>) # m"
      unfolding e using True by simp
    from Cons.prems(2) have "m_path_td (t\<lparr>m_path_td := b\<rparr>) \<noteq> a" by simp
    with none show ?thesis unfolding step by simp
  next
    case False
    from Cons.prems(1) have "length (filter (\<lambda>e. m_path_td (snd e) = a) m) \<le> 1"
      unfolding e using False by simp
    then have ih: "\<forall>x \<in> set (rename_destination_loop m a b). m_path_td (snd x) \<noteq> a"
      using Cons.prems(2) by (rule Cons.IH)
    have step: "rename_destination_loop (e # m) a b = (k, t) # rename_destination_loop m a b"
      unfolding e using False by simp
    from ih False show ?thesis unfolding step by simp
  qed
qed

lemmas rename_defs =
  rename_def lo_server_del_method_def lo_server_add_method_def rename_translation_destination_def
  get_connections_def

text \<open>
  Claim C3 says that \<open>rename\<close> points every translation whose destination is the old
  path to the new one. The loop stops at the first: with the translations from
  \<^verbatim>\<open>/ctl/a\<close> and from \<^verbatim>\<open>/ctl/b\<close> to \<^verbatim>\<open>/app/vol\<close>, renaming that signal to \<^verbatim>\<open>/app/gain\<close>
  moves the first translation and leaves the second at the old path.
\<close>

theorem rename_leaves_second_translation:
  "\<exists>ep'. rename pattern_match ep_two_routes 0 ''/gain'' = Inr ep' \<and>
     get_connections ep_two_routes ''/app/vol'' = [''/ctl/a'', ''/ctl/b''] \<and>
     map_option m_path (objects ep' 0) = Some ''/app/gain'' \<and>
     get_connections ep' ''/app/gain'' = [''/ctl/a''] \<and>
     get_connections ep' ''/app/vol'' = [''/ctl/b'']"
  by (simp add: rename_defs ep_two_routes_object ep_two_routes_translations ep_two_routes_rest
        Let_def)

subsection \<open>Translations and feedback\<close>

lemma is_map_distinct: "is_map m \<Longrightarrow> distinct (map fst m)"
  by (simp add: is_map_def strict_sorted_iff)

lemma assign_keys: "map fst (assign m a f) = map fst m"
  by (induction m a f rule: assign.induct) auto

lemma map_of_assign:
  "map_of m a = Some t \<Longrightarrow> map_of (assign m a f) a = Some (f t)"
  by (induction m a f rule: assign.induct) (auto split: if_splits)

text \<open>\<open>add_translation\<close> keeps the list of translations a map.\<close>

lemma subscript_keys: "fst ` set (subscript m a) = insert a (fst ` set m)"
  by (induction m a rule: subscript.induct) auto

lemma is_map_subscript:
  assumes "is_map m"
  shows "is_map (subscript m a)"
  using assms unfolding is_map_def
proof (induction m a rule: subscript.induct)
  case (1 a)
  show ?case by simp
next
  case (2 k t m a)
  from "2.prems" have above: "\<forall>x \<in> fst ` set m. k < x" and rest: "sorted_wrt (<) (map fst m)"
    by simp_all
  show ?case
  proof (cases "a = k")
    case True
    with "2.prems" show ?thesis by simp
  next
    case False
    show ?thesis
    proof (cases "a < k")
      case True
      with above have "\<forall>x \<in> fst ` set m. a < x" by (meson less_trans)
      with True False above rest show ?thesis by simp
    next
      case greater: False
      with False have "k < a" by simp
      with above have "\<forall>x \<in> fst ` set (subscript m a). k < x"
        by (simp add: subscript_keys)
      moreover from False greater rest have "sorted_wrt (<) (map fst (subscript m a))"
        by (rule "2.IH")
      ultimately show ?thesis using False greater by simp
    qed
  qed
qed

lemma is_map_add_translation:
  "is_map (m_translations ep) \<Longrightarrow> is_map (m_translations (add_translation ep a b))"
  by (simp add: add_translation_def is_map_def assign_keys is_map_subscript [unfolded is_map_def])

lemma send_feedback_peers_Some:
  assumes "spath \<noteq> NIL"
  shows "send_feedback_peers ep peers (osc_message_ptr spath) v =
     Inr (ep\<lparr>sent := sent ep @ map (\<lambda>mp. Send (p_addr mp) (Some spath) ''f'' [OscF v]) peers\<rparr>)"
  using assms
proof (induction peers arbitrary: ep)
  case Nil
  show ?case by simp
next
  case (Cons mp peers)
  then show ?case
    by (simp add: string_of_ptr_def send_f_def lo_send_from_def osc_message_ptr_def)
qed

text \<open>What \<open>send_feedback\<close> does when no translation to \<open>path\<close> has the placeholder
  \<^verbatim>\<open>"-"\<close> as its source.\<close>

lemma send_feedback_loop_closed:
  fixes path :: string and v :: float
  defines "emits \<equiv> \<lambda>t. m_path_td t = path \<and> \<not> m_suppress_feedback t \<and>
                        float_ne (m_current_value t) v"
  defines "after \<equiv> \<lambda>t. if m_path_td t = path
                        then (if emits t then t\<lparr>m_current_value := v, m_suppress_feedback := False\<rparr>
                              else t\<lparr>m_suppress_feedback := False\<rparr>)
                        else t"
  assumes "\<forall>e \<in> set m. m_path_td (snd e) = path \<longrightarrow> fst e \<noteq> NIL" and "m_peers ep = peers"
  shows "send_feedback_loop ep m path v =
     Inr (ep\<lparr>sent := sent ep @
               concat (map (\<lambda>e. if emits (snd e)
                                 then map (\<lambda>mp. Send (p_addr mp) (Some (fst e)) ''f'' [OscF v])
                                        peers
                                 else []) m)\<rparr>,
          map (apsnd after) m)"
  using assms(3,4)
proof (induction m arbitrary: ep)
  case Nil
  show ?case by simp
next
  case (Cons e m)
  obtain spath t where e: "e = (spath, t)" by (cases e)
  from Cons.prems e have spath: "m_path_td t = path \<longrightarrow> spath \<noteq> NIL"
    and rest: "\<forall>e \<in> set m. m_path_td (snd e) = path \<longrightarrow> fst e \<noteq> NIL" by auto
  note IH = Cons.IH [OF rest]
  note peers = Cons.prems(2)
  show ?case
  proof (cases "emits t")
    case True
    with spath have "spath \<noteq> NIL" by (simp add: emits_def)
    with True show ?thesis
      unfolding e
      by (simp add: emits_def after_def send_feedback_peers_Some IH peers)
  next
    case False
    then show ?thesis
      unfolding e by (auto simp add: emits_def after_def IH peers)
  qed
qed

lemma map_of_map_apsnd:
  "map_of (map (apsnd f) m) k = map_option f (map_of m k)"
  by (induction m) auto

lemma send_feedback_result:
  fixes path :: string and v :: float
  defines "emits \<equiv> \<lambda>t. m_path_td t = path \<and> \<not> m_suppress_feedback t \<and>
                        float_ne (m_current_value t) v"
  defines "after \<equiv> \<lambda>t. if m_path_td t = path
                        then (if emits t then t\<lparr>m_current_value := v, m_suppress_feedback := False\<rparr>
                              else t\<lparr>m_suppress_feedback := False\<rparr>)
                        else t"
  assumes "\<forall>e \<in> set (m_translations ep). m_path_td (snd e) = path \<longrightarrow> fst e \<noteq> NIL"
  shows "\<exists>out.
     send_feedback ep path v =
       Inr (ep\<lparr>sent := sent ep @ out,
               m_translations := map (apsnd after) (m_translations ep)\<rparr>) \<and>
     set out =
       {Send (p_addr mp) (Some k) ''f'' [OscF v] | mp k t.
          mp \<in> set (m_peers ep) \<and> (k, t) \<in> set (m_translations ep) \<and> emits t}"
proof -
  let ?out = "concat (map (\<lambda>e. if emits (snd e)
                                 then map (\<lambda>mp. Send (p_addr mp) (Some (fst e)) ''f'' [OscF v])
                                        (m_peers ep)
                                 else []) (m_translations ep))"
  have "send_feedback ep path v =
       Inr (ep\<lparr>sent := sent ep @ ?out,
               m_translations := map (apsnd after) (m_translations ep)\<rparr>)"
    unfolding send_feedback_def emits_def after_def
    by (simp add: send_feedback_loop_closed [OF assms(3) refl])
  moreover have "set ?out =
       {Send (p_addr mp) (Some k) ''f'' [OscF v] | mp k t.
          mp \<in> set (m_peers ep) \<and> (k, t) \<in> set (m_translations ep) \<and> emits t}"
    by (force split: if_splits)
  ultimately show ?thesis by blast
qed

lemma assign_set:
  "e \<in> set (assign m a f) \<Longrightarrow> e \<in> set m \<or> (\<exists>t. (a, t) \<in> set m \<and> e = (a, f t))"
  by (induction m a f rule: assign.induct) (auto split: if_splits)

text \<open>
  Claim C1, as amended. Let the translation map hold the translation \<open>t\<close> from \<open>A\<close> to \<open>B\<close>
  with the cached value \<open>V\<close>, let no translation to \<open>B\<close> have the placeholder \<^verbatim>\<open>"-"\<close> as
  its source, and let a message with at least one argument arrive at \<open>A\<close> while nothing
  is being learnt. Then \<open>osc_generic\<close> forwards the message to \<open>B\<close> and sets the flag of
  the translation; the value it caches from then on is the float of the message when the
  types are \<^verbatim>\<open>"f"\<close>, and \<open>V\<close> otherwise. The following \<open>send_feedback\<close> to \<open>B\<close>, with \<open>V\<close>
  or any other value \<open>v\<close>, sends nothing to the path \<open>A\<close> and clears the flag, the cached
  value staying what it is. A further \<open>send_feedback\<close> to \<open>B\<close> with a value \<open>V2\<close> that
  differs from the value cached then sends \<open>V2\<close> to the path \<open>A\<close> at every known peer and
  caches it. After either call no translation to \<open>B\<close> has its flag set; and so it is
  after any \<open>send_feedback\<close> to \<open>B\<close>, in whatever state of the endpoint (no translation
  to \<open>B\<close> having the placeholder as its source).
\<close>

theorem feedback_suppression:
  assumes map: "is_map (m_translations ep)"
    and nonil: "\<forall>e \<in> set (m_translations ep). m_path_td (snd e) = B \<longrightarrow> fst e \<noteq> NIL"
    and tr: "map_of (m_translations ep) A = Some t"
    and dest: "m_path_td t = B"
    and cached: "m_current_value t = V"
    and argc: "argv \<noteq> []"
    and learn: "m_learning_path ep = []"
  shows "(\<exists>ep1 ep2.
      osc_generic strncompare (Some ep) A types argv msg = Inr (osc_msg_handled, Some ep1) \<and>
      sent ep1 = sent ep @ [Send_message (m_address ep) B msg] \<and>
      map_of (m_translations ep1) A =
        Some (t\<lparr>m_current_value := (if types = ''f'' then arg_f (argv ! 0) else V),
                m_suppress_feedback := True\<rparr>) \<and>
      send_feedback ep1 B v = Inr ep2 \<and>
      (\<forall>to ty args. Send to (Some A) ty args \<notin> set (drop (length (sent ep1)) (sent ep2))) \<and>
      map_of (m_translations ep2) A =
        Some (t\<lparr>m_current_value := (if types = ''f'' then arg_f (argv ! 0) else V),
                m_suppress_feedback := False\<rparr>) \<and>
      (\<forall>e \<in> set (m_translations ep2). m_path_td (snd e) = B \<longrightarrow> \<not> m_suppress_feedback (snd e)) \<and>
      (float_ne (if types = ''f'' then arg_f (argv ! 0) else V) V2 \<longrightarrow>
         (\<exists>ep3. send_feedback ep2 B V2 = Inr ep3 \<and>
            (\<forall>mp \<in> set (m_peers ep).
               Send (p_addr mp) (Some A) ''f'' [OscF V2] \<in> set (drop (length (sent ep2)) (sent ep3))) \<and>
            map_of (m_translations ep3) A =
              Some (t\<lparr>m_current_value := V2, m_suppress_feedback := False\<rparr>) \<and>
            (\<forall>e \<in> set (m_translations ep3).
               m_path_td (snd e) = B \<longrightarrow> \<not> m_suppress_feedback (snd e))))) \<and>
      (\<forall>ep0 w.
         (\<forall>e \<in> set (m_translations ep0). m_path_td (snd e) = B \<longrightarrow> fst e \<noteq> NIL) \<longrightarrow>
         (\<exists>ep'. send_feedback ep0 B w = Inr ep' \<and>
            (\<forall>e \<in> set (m_translations ep').
               m_path_td (snd e) = B \<longrightarrow> \<not> m_suppress_feedback (snd e))))"
proof -
  let ?m = "m_translations ep"
  define W where "W = (if types = ''f'' then arg_f (argv ! 0) else V)"
  define t1 where "t1 = t\<lparr>m_current_value := W, m_suppress_feedback := True\<rparr>"
  define ep1 where
    "ep1 = lo_send_message (ep\<lparr>m_translations := assign ?m A (\<lambda>_. t1)\<rparr>) (m_address ep) B msg"
  have t1_eq: "t1 = (if types = ''f'' then t\<lparr>m_current_value := arg_f (argv ! 0)\<rparr> else t)
                       \<lparr>m_suppress_feedback := True\<rparr>"
    using cached by (auto simp add: t1_def W_def)
  from argc have "int (length argv) \<ge> 1" by (cases argv) simp_all
  with tr dest learn
  have gen: "osc_generic strncompare (Some ep) A types argv msg = Inr (osc_msg_handled, Some ep1)"
    by (simp add: osc_generic_def Let_def ep1_def t1_eq)
  have m1: "m_translations ep1 = assign ?m A (\<lambda>_. t1)"
    and sent1: "sent ep1 = sent ep @ [Send_message (m_address ep) B msg]"
    and peers1: "m_peers ep1 = m_peers ep"
    by (simp_all add: ep1_def lo_send_message_def)
  have t1: "m_path_td t1 = B" "m_suppress_feedback t1" "m_current_value t1 = W"
    using dest by (simp_all add: t1_def)
  have keys1: "map fst (m_translations ep1) = map fst ?m"
    by (simp add: m1 assign_keys)
  from map have "distinct (map fst ?m)" by (rule is_map_distinct)
  with keys1 have dist1: "distinct (map fst (m_translations ep1))" by simp
  from tr have memA: "(A, t) \<in> set ?m" by (rule map_of_SomeD)
  with nonil dest have A: "A \<noteq> NIL" by auto
  have nonil1: "\<forall>e \<in> set (m_translations ep1). m_path_td (snd e) = B \<longrightarrow> fst e \<noteq> NIL"
  proof (intro ballI impI)
    fix e
    assume "e \<in> set (m_translations ep1)" and b: "m_path_td (snd e) = B"
    then have "e \<in> set ?m \<or> (\<exists>t'. (A, t') \<in> set ?m \<and> e = (A, t1))"
      unfolding m1 by (auto dest: assign_set)
    with nonil b A show "fst e \<noteq> NIL" by auto
  qed
  from tr have look1: "map_of (m_translations ep1) A = Some t1"
    by (simp add: m1 map_of_assign)
  \<comment> \<open>the first feedback\<close>
  define after where
    "after = (\<lambda>(w::float) (t::translation_destination). if m_path_td t = B
               then (if m_path_td t = B \<and> \<not> m_suppress_feedback t \<and> float_ne (m_current_value t) w
                     then t\<lparr>m_current_value := w, m_suppress_feedback := False\<rparr>
                     else t\<lparr>m_suppress_feedback := False\<rparr>)
               else t)"
  from send_feedback_result [OF nonil1, of v] obtain out1 where
    fb1: "send_feedback ep1 B v =
       Inr (ep1\<lparr>sent := sent ep1 @ out1,
               m_translations := map (apsnd (after v)) (m_translations ep1)\<rparr>)"
    and out1: "set out1 =
       {Send (p_addr mp) (Some k) ''f'' [OscF v] | mp k t.
          mp \<in> set (m_peers ep1) \<and> (k, t) \<in> set (m_translations ep1) \<and>
          m_path_td t = B \<and> \<not> m_suppress_feedback t \<and> float_ne (m_current_value t) v}"
    unfolding after_def by blast
  define ep2 where
    "ep2 = ep1\<lparr>sent := sent ep1 @ out1,
               m_translations := map (apsnd (after v)) (m_translations ep1)\<rparr>"
  from fb1 have fb1': "send_feedback ep1 B v = Inr ep2" by (simp add: ep2_def)
  have new1: "drop (length (sent ep1)) (sent ep2) = out1" by (simp add: ep2_def)
  have quiet: "Send to (Some A) ty args \<notin> set out1" for to ty args
  proof
    assume "Send to (Some A) ty args \<in> set out1"
    with out1 obtain t' where "(A, t') \<in> set (m_translations ep1)" "\<not> m_suppress_feedback t'"
      by auto
    with dist1 look1 t1(2) show False by simp
  qed
  have same_dest: "m_path_td (after w x) = m_path_td x" for w x
    by (simp add: after_def)
  have cleared: "m_path_td (after w x) = B \<longrightarrow> \<not> m_suppress_feedback (after w x)" for w x
    by (simp add: after_def)
  have look2: "map_of (m_translations ep2) A = Some (t1\<lparr>m_suppress_feedback := False\<rparr>)"
    using look1 t1 by (simp add: ep2_def map_of_map_apsnd after_def)
  have clear2: "\<forall>e \<in> set (m_translations ep2). m_path_td (snd e) = B \<longrightarrow> \<not> m_suppress_feedback (snd e)"
    using cleared by (auto simp add: ep2_def)
  have nonil2: "\<forall>e \<in> set (m_translations ep2). m_path_td (snd e) = B \<longrightarrow> fst e \<noteq> NIL"
    using nonil1 same_dest by (auto simp add: ep2_def)
  have peers2: "m_peers ep2 = m_peers ep" by (simp add: ep2_def peers1)
  \<comment> \<open>the second feedback\<close>
  have second: "\<exists>ep3. send_feedback ep2 B V2 = Inr ep3 \<and>
            (\<forall>mp \<in> set (m_peers ep).
               Send (p_addr mp) (Some A) ''f'' [OscF V2] \<in> set (drop (length (sent ep2)) (sent ep3))) \<and>
            map_of (m_translations ep3) A =
              Some (t\<lparr>m_current_value := V2, m_suppress_feedback := False\<rparr>) \<and>
            (\<forall>e \<in> set (m_translations ep3).
               m_path_td (snd e) = B \<longrightarrow> \<not> m_suppress_feedback (snd e))"
    if differs: "float_ne W V2"
  proof -
    from send_feedback_result [OF nonil2, of V2] obtain out2 where
      fb2: "send_feedback ep2 B V2 =
         Inr (ep2\<lparr>sent := sent ep2 @ out2,
                 m_translations := map (apsnd (after V2)) (m_translations ep2)\<rparr>)"
      and out2: "set out2 =
         {Send (p_addr mp) (Some k) ''f'' [OscF V2] | mp k t.
            mp \<in> set (m_peers ep2) \<and> (k, t) \<in> set (m_translations ep2) \<and>
            m_path_td t = B \<and> \<not> m_suppress_feedback t \<and> float_ne (m_current_value t) V2}"
      unfolding after_def by blast
    from look2 have mem: "(A, t1\<lparr>m_suppress_feedback := False\<rparr>) \<in> set (m_translations ep2)"
      by (rule map_of_SomeD)
    have "Send (p_addr mp) (Some A) ''f'' [OscF V2] \<in> set out2" if "mp \<in> set (m_peers ep)" for mp
      unfolding out2 using that mem t1 differs peers2 by force
    moreover have "map_of (map (apsnd (after V2)) (m_translations ep2)) A =
        Some (t\<lparr>m_current_value := V2, m_suppress_feedback := False\<rparr>)"
      using look2 t1 differs by (simp add: map_of_map_apsnd after_def t1_def)
    ultimately show ?thesis
      unfolding fb2 using cleared by auto
  qed
  have look2': "map_of (m_translations ep2) A =
      Some (t\<lparr>m_current_value := W, m_suppress_feedback := False\<rparr>)"
    using look2 by (simp add: t1_def)
  have look1': "map_of (m_translations ep1) A =
      Some (t\<lparr>m_current_value := W, m_suppress_feedback := True\<rparr>)"
    using look1 by (simp add: t1_def)
  have every: "\<exists>ep'. send_feedback ep0 B w = Inr ep' \<and>
            (\<forall>e \<in> set (m_translations ep').
               m_path_td (snd e) = B \<longrightarrow> \<not> m_suppress_feedback (snd e))"
    if "\<forall>e \<in> set (m_translations ep0). m_path_td (snd e) = B \<longrightarrow> fst e \<noteq> NIL"
    for ep0 w
  proof -
    from send_feedback_result [OF that, of w] obtain out where
      "send_feedback ep0 B w =
         Inr (ep0\<lparr>sent := sent ep0 @ out,
                 m_translations := map (apsnd (after w)) (m_translations ep0)\<rparr>)"
      unfolding after_def by blast
    with cleared show ?thesis by auto
  qed
  from gen sent1 look1' fb1' new1 quiet look2' clear2 second
  have "osc_generic strncompare (Some ep) A types argv msg = Inr (osc_msg_handled, Some ep1) \<and>
      sent ep1 = sent ep @ [Send_message (m_address ep) B msg] \<and>
      map_of (m_translations ep1) A =
        Some (t\<lparr>m_current_value := W, m_suppress_feedback := True\<rparr>) \<and>
      send_feedback ep1 B v = Inr ep2 \<and>
      (\<forall>to ty args. Send to (Some A) ty args \<notin> set (drop (length (sent ep1)) (sent ep2))) \<and>
      map_of (m_translations ep2) A =
        Some (t\<lparr>m_current_value := W, m_suppress_feedback := False\<rparr>) \<and>
      (\<forall>e \<in> set (m_translations ep2). m_path_td (snd e) = B \<longrightarrow> \<not> m_suppress_feedback (snd e)) \<and>
      (float_ne W V2 \<longrightarrow>
         (\<exists>ep3. send_feedback ep2 B V2 = Inr ep3 \<and>
            (\<forall>mp \<in> set (m_peers ep).
               Send (p_addr mp) (Some A) ''f'' [OscF V2] \<in> set (drop (length (sent ep2)) (sent ep3))) \<and>
            map_of (m_translations ep3) A =
              Some (t\<lparr>m_current_value := V2, m_suppress_feedback := False\<rparr>) \<and>
            (\<forall>e \<in> set (m_translations ep3).
               m_path_td (snd e) = B \<longrightarrow> \<not> m_suppress_feedback (snd e))))"
    by simp
  with every show ?thesis
    unfolding W_def by blast
qed

lemma ep_forwarded_eq:
  "m_translations ep_forwarded =
     [(''/ctl/a'', \<lparr>m_path_td = ''/app/vol'', m_current_value = 0x3F000000,
                    m_suppress_feedback = True\<rparr>)]"
  "m_peers ep_forwarded = m_peers ep_two_peers"
  "m_translations ep_fed_back =
     [(''/ctl/a'', \<lparr>m_path_td = ''/app/vol'', m_current_value = 0x3F000000,
                    m_suppress_feedback = False\<rparr>)]"
  "m_peers ep_fed_back = m_peers ep_two_peers"
  "sent ep_fed_back = sent ep_forwarded"
  by (simp_all add: ep_forwarded_def ep_fed_back_def)

lemma float_ne_examples:
  "float_ne 0x3F000000 0xBF800000" "float_ne 0x3F000000 0x3F800000"
  "\<not> float_ne 0x3F000000 0x3F000000" "float_ne 0xBF800000 0"
  by (simp_all add: float_ne_def float_eq_def float_isnan_def)

lemma forward_ctl_half:
  "osc_generic strncompare (Some ep_two_peers) ''/ctl/a'' ''f'' (msg_argv ctl_half) ctl_half =
     Inr (osc_msg_handled, Some ep_forwarded)"
  by (simp add: osc_generic_def ep_two_peers_translations ep_two_peers_rest ep_forwarded_def
        lo_send_message_def ctl_half_def Let_def)

lemma feed_back_suppressed:
  "send_feedback ep_forwarded ''/app/vol'' v = Inr ep_fed_back"
  by (simp add: send_feedback_def ep_forwarded_eq ep_fed_back_def)

lemma feed_back_cached:
  "send_feedback ep_fed_back ''/app/vol'' 0x3F000000 = Inr ep_fed_back"
  by (simp add: send_feedback_def ep_forwarded_eq float_ne_examples)

text \<open>Claim C1, as amended, at the translation from \<^verbatim>\<open>/ctl/a\<close> to \<^verbatim>\<open>/app/vol\<close> with two
  peers and the cached value -1.0: the message carries 0.5, the first feedback is -1.0,
  which only the flag keeps from the peers, and the second is 1.0.\<close>

theorem feedback_suppression_witness:
  "is_map (m_translations ep_two_peers) \<and>
   map fst (m_translations ep_two_peers) = [''/ctl/a''] \<and>
   map_of (m_translations ep_two_peers) ''/ctl/a'' =
     Some \<lparr>m_path_td = ''/app/vol'', m_current_value = 0xBF800000, m_suppress_feedback = False\<rparr> \<and>
   msg_argv ctl_half \<noteq> [] \<and>
   m_learning_path ep_two_peers = [] \<and>
   float_ne 0x3F000000 0xBF800000 \<and>
   float_ne 0x3F000000 0x3F800000 \<and>
   osc_generic prefix_compare (Some ep_two_peers) ''/ctl/a'' ''f'' (msg_argv ctl_half) ctl_half =
     Inr (osc_msg_handled, Some ep_forwarded) \<and>
   send_feedback ep_forwarded ''/app/vol'' 0xBF800000 = Inr ep_fed_back \<and>
   sent ep_fed_back = sent ep_forwarded \<and>
   map_of (m_translations ep_fed_back) ''/ctl/a'' =
     Some \<lparr>m_path_td = ''/app/vol'', m_current_value = 0x3F000000, m_suppress_feedback = False\<rparr> \<and>
   (\<exists>ep3.
      send_feedback ep_fed_back ''/app/vol'' 0x3F800000 = Inr ep3 \<and>
      Send \<lparr>a_host = ''hostA'', a_port = ''9000''\<rparr> (Some ''/ctl/a'') ''f'' [OscF 0x3F800000]
        \<in> set (drop (length (sent ep_fed_back)) (sent ep3)) \<and>
      Send \<lparr>a_host = ''hostB'', a_port = ''9001''\<rparr> (Some ''/ctl/a'') ''f'' [OscF 0x3F800000]
        \<in> set (drop (length (sent ep_fed_back)) (sent ep3)) \<and>
      map_of (m_translations ep3) ''/ctl/a'' =
        Some \<lparr>m_path_td = ''/app/vol'', m_current_value = 0x3F800000,
              m_suppress_feedback = False\<rparr>)"
proof -
  let ?t = "\<lparr>m_path_td = ''/app/vol'', m_current_value = 0xBF800000, m_suppress_feedback = False\<rparr>"
  have a: "is_map (m_translations ep_two_peers)"
    by (simp add: ep_two_peers_translations is_map_def)
  have keys: "map fst (m_translations ep_two_peers) = [''/ctl/a'']"
    by (simp add: ep_two_peers_translations)
  have b: "\<forall>e \<in> set (m_translations ep_two_peers). m_path_td (snd e) = ''/app/vol'' \<longrightarrow> fst e \<noteq> NIL"
    by (simp add: ep_two_peers_translations NIL_def)
  have c: "map_of (m_translations ep_two_peers) ''/ctl/a'' = Some ?t"
    by (simp add: ep_two_peers_translations)
  have d: "m_path_td ?t = ''/app/vol''" by simp
  have d': "m_current_value ?t = 0xBF800000" by simp
  have e: "msg_argv ctl_half \<noteq> []" by (simp add: ctl_half_def)
  have f: "m_learning_path ep_two_peers = []"
    by (simp add: ep_two_peers_rest)
  have arg: "arg_f (msg_argv ctl_half ! 0) = 0x3F000000"
    by (simp add: ctl_half_def)
  from feedback_suppression [OF a b c d d' e f,
      where strncompare = prefix_compare and types = "''f''"
        and msg = ctl_half and v = "0xBF800000" and ?V2.0 = "0x3F800000", THEN conjunct1]
  obtain ep1 ep2 where
    r1: "osc_generic prefix_compare (Some ep_two_peers) ''/ctl/a'' ''f''
           (msg_argv ctl_half) ctl_half = Inr (osc_msg_handled, Some ep1)"
    and r2: "send_feedback ep1 ''/app/vol'' 0xBF800000 = Inr ep2"
    and quiet: "\<forall>to ty args.
         Send to (Some ''/ctl/a'') ty args \<notin> set (drop (length (sent ep1)) (sent ep2))"
    and look2: "map_of (m_translations ep2) ''/ctl/a'' =
        Some (?t\<lparr>m_current_value := 0x3F000000, m_suppress_feedback := False\<rparr>)"
    and then3: "float_ne 0x3F000000 0x3F800000 \<longrightarrow>
         (\<exists>ep3. send_feedback ep2 ''/app/vol'' 0x3F800000 = Inr ep3 \<and>
            (\<forall>mp \<in> set (m_peers ep_two_peers).
               Send (p_addr mp) (Some ''/ctl/a'') ''f'' [OscF 0x3F800000]
                 \<in> set (drop (length (sent ep2)) (sent ep3))) \<and>
            map_of (m_translations ep3) ''/ctl/a'' =
              Some (?t\<lparr>m_current_value := 0x3F800000, m_suppress_feedback := False\<rparr>) \<and>
            (\<forall>e \<in> set (m_translations ep3).
               m_path_td (snd e) = ''/app/vol'' \<longrightarrow> \<not> m_suppress_feedback (snd e)))"
    unfolding arg by auto
  from r1 have ep1: "ep1 = ep_forwarded" by (simp add: forward_ctl_half)
  from r2 have ep2: "ep2 = ep_fed_back" by (simp add: ep1 feed_back_suppressed)
  from then3 float_ne_examples(2) obtain ep3 where
    r3: "send_feedback ep_fed_back ''/app/vol'' 0x3F800000 = Inr ep3"
    and all: "\<forall>mp \<in> set (m_peers ep_two_peers).
               Send (p_addr mp) (Some ''/ctl/a'') ''f'' [OscF 0x3F800000]
                 \<in> set (drop (length (sent ep_fed_back)) (sent ep3))"
    and look: "map_of (m_translations ep3) ''/ctl/a'' =
              Some (?t\<lparr>m_current_value := 0x3F800000, m_suppress_feedback := False\<rparr>)"
    unfolding ep2 by auto
  from all have
    "Send \<lparr>a_host = ''hostA'', a_port = ''9000''\<rparr> (Some ''/ctl/a'') ''f'' [OscF 0x3F800000]
        \<in> set (drop (length (sent ep_fed_back)) (sent ep3))"
    "Send \<lparr>a_host = ''hostB'', a_port = ''9001''\<rparr> (Some ''/ctl/a'') ''f'' [OscF 0x3F800000]
        \<in> set (drop (length (sent ep_fed_back)) (sent ep3))"
    by (simp_all add: ep_two_peers_peers)
  moreover from look2 have "map_of (m_translations ep_fed_back) ''/ctl/a'' =
     Some \<lparr>m_path_td = ''/app/vol'', m_current_value = 0x3F000000, m_suppress_feedback = False\<rparr>"
    by (simp add: ep2)
  moreover from r1 r2 have
    "osc_generic prefix_compare (Some ep_two_peers) ''/ctl/a'' ''f'' (msg_argv ctl_half) ctl_half =
       Inr (osc_msg_handled, Some ep_forwarded)"
    "send_feedback ep_forwarded ''/app/vol'' 0xBF800000 = Inr ep_fed_back"
    by (simp_all add: ep1 ep2)
  moreover from quiet have "sent ep_fed_back = sent ep_forwarded"
    by (simp add: ep_forwarded_eq)
  ultimately show ?thesis
    using a keys c e f float_ne_examples(1,2) r3 look
    by (intro conjI exI [of _ ep3]) simp_all
qed

text \<open>
  Claim C1 as stated does not hold when the forwarded message carries the value of the
  second feedback. The translation from \<^verbatim>\<open>/ctl/a\<close> to \<^verbatim>\<open>/app/vol\<close> caches -1.0; a message
  of the types \<^verbatim>\<open>"f"\<close> with the float 0.5 is forwarded, which caches 0.5; the feedback with
  -1.0 is suppressed; the feedback with 0.5, which differs from -1.0, then sends nothing
  to the two peers and leaves the endpoint as it is.
\<close>

theorem feedback_cached_value_counterexample:
  "map_of (m_translations ep_two_peers) ''/ctl/a'' =
     Some \<lparr>m_path_td = ''/app/vol'', m_current_value = 0xBF800000, m_suppress_feedback = False\<rparr> \<and>
   arg_f (msg_argv ctl_half ! 0) = 0x3F000000 \<and>
   osc_generic prefix_compare (Some ep_two_peers) ''/ctl/a'' ''f'' (msg_argv ctl_half) ctl_half =
     Inr (osc_msg_handled, Some ep_forwarded) \<and>
   send_feedback ep_forwarded ''/app/vol'' 0xBF800000 = Inr ep_fed_back \<and>
   float_ne 0x3F000000 0xBF800000 \<and>
   map p_name (m_peers ep_fed_back) = [''P'', ''Q''] \<and>
   send_feedback ep_fed_back ''/app/vol'' 0x3F000000 = Inr ep_fed_back"
proof -
  have "arg_f (msg_argv ctl_half ! 0) = 0x3F000000"
    by (simp add: ctl_half_def)
  then show ?thesis
    by (simp add: forward_ctl_half feed_back_suppressed feed_back_cached float_ne_examples
          ep_forwarded_eq ep_two_peers_peers ep_two_peers_translations)
qed

text \<open>A translation whose source is the placeholder \<^verbatim>\<open>"-"\<close> is what the amended claim
  leaves out: with such a translation to \<^verbatim>\<open>/app/vol\<close> and a peer, a feedback that is to
  be sent ends in the \<^verbatim>\<open>std::string\<close> made from the null pointer of \<^verbatim>\<open>OPTR\<close>.\<close>

lemma send_feedback_placeholder_source:
  "send_feedback (add_translation ep_peer_A NIL ''/app/vol'') ''/app/vol'' 0 = Inl Null_string"
  by (simp add: send_feedback_def add_translation_def ep_peer_A_eq example_defs
        translation_destination_new_def float_ne_examples osc_message_ptr_def string_of_ptr_def)

end
